theory Spec2Isabelle
  imports Complex_Main "HOL-Library.Sublist" "HOL-Library.Log_Nat"
begin

section \<open>TripGenie: recommendation pipeline and evaluation engine\<close>

text \<open>
  A shallow embedding of the Python sources \<^verbatim>\<open>src/core/metrics.py\<close>,
  \<^verbatim>\<open>src/agents/intent_extractor.py\<close>, \<^verbatim>\<open>src/agents/trip_planner.py\<close>,
  \<^verbatim>\<open>src/api/flights.py\<close>, \<^verbatim>\<open>src/agents/orchestrator.py\<close> and
  \<^verbatim>\<open>src/evaluation/evaluator.py\<close>.

  Conventions of the embedding:
  \<^item> a pydantic model or dataclass is a record with the fields of the class, an
    \<^verbatim>\<open>Optional[T]\<close> field is a \<open>T option\<close>; where two classes share a field name
    the selector is written qualified (\<open>TripPlan.destination\<close>);
  \<^item> a finite Python \<^verbatim>\<open>float\<close> is the rational number it denotes. In the Metrics
    Recorder and the Evaluator, where a rounded value decides a band, a grade or a
    recorded digit, every float operation is the IEEE binary64 one: the exact result
    rounded to 53 significant bits, ties to even (\<open>to_double\<close>), and a decimal literal such as
    \<^verbatim>\<open>1.2\<close> is the double nearest to it. In the Orchestrator the total cost and the
    confidence are kept as the exact sum and mean, of which the machine values are the
    roundings. Infinities and NaN are outside the model, and a result beyond the
    largest double stays finite where the machine gives \<^verbatim>\<open>inf\<close>;
  \<^item> a Python \<^verbatim>\<open>str\<close> is a \<open>string\<close>; the model covers ASCII text;
  \<^item> an exception is a value of type \<open>py_error\<close>; a function that can raise returns
    \<open>py_error + 'a\<close>, and \<^verbatim>\<open>try/except Exception\<close> is a case distinction on it;
  \<^item> the process-wide \<^verbatim>\<open>tracker\<close> is passed in and returned;
  \<^item> what the outside world supplies (the reply of the text service, the JSON
    decoder and schema validation of the libraries, clock readings, the flight
    pricing service) is a parameter of the function that asks for it.
\<close>

subsection \<open>Python basics\<close>

datatype py_error = PyError (err_class: string) (err_msg: string)

text \<open>\<^verbatim>\<open>str(e)\<close> of an exception.\<close>

definition str_of_error :: "py_error \<Rightarrow> string" where
  "str_of_error e = err_msg e"

definition ZeroDivisionError :: py_error where
  "ZeroDivisionError = PyError ''ZeroDivisionError'' ''division by zero''"

definition IndexError :: py_error where
  "IndexError = PyError ''IndexError'' ''list index out of range''"

text \<open>Truthiness of an \<^verbatim>\<open>Optional[str]\<close> and an \<^verbatim>\<open>Optional[int]\<close> value.\<close>

definition truthy_str :: "string option \<Rightarrow> bool" where
  "truthy_str s = (case s of None \<Rightarrow> False | Some t \<Rightarrow> t \<noteq> [])"

definition truthy_int :: "int option \<Rightarrow> bool" where
  "truthy_int n = (case n of None \<Rightarrow> False | Some k \<Rightarrow> k \<noteq> 0)"

text \<open>\<^verbatim>\<open>xs[i]\<close> for a non-negative literal index: raises IndexError out of range.\<close>

definition py_index :: "'a list \<Rightarrow> nat \<Rightarrow> py_error + 'a" where
  "py_index xs i = (if i < length xs then Inr (xs ! i) else Inl IndexError)"

text \<open>Rounding to the nearest integer, ties to even.\<close>

definition round_half_even :: "rat \<Rightarrow> int" where
  "round_half_even x =
     (let f = \<lfloor>x\<rfloor>; d = x - of_int f
      in if d < 1 / 2 then f
         else if 1 / 2 < d then f + 1
         else if even f then f else f + 1)"

text \<open>
  IEEE binary64. \<open>binade x\<close> is the exponent \<open>e\<close> with \<open>2^e \<le> |x| < 2^(e+1)\<close>; a double
  in that binade is a multiple of \<open>2^(e-52)\<close>, and of \<open>2^-1074\<close> in the subnormal range.
  \<open>to_double x\<close> is the double nearest to \<open>x\<close>, ties to the even significand.
\<close>

definition pow2 :: "int \<Rightarrow> rat" where
  "pow2 k = (if 0 \<le> k then 2 ^ nat k else 1 / 2 ^ nat (- k))"

definition binade :: "rat \<Rightarrow> int" where
  "binade x =
     (let e0 = bitlen \<bar>fst (quotient_of x)\<bar> - bitlen (snd (quotient_of x))
      in if pow2 e0 \<le> \<bar>x\<bar> then e0 else e0 - 1)"

definition to_double :: "rat \<Rightarrow> rat" where
  "to_double x =
     (if x = 0 then 0
      else (let q = max (binade x - 52) (- 1074)
            in of_int (round_half_even (x / pow2 q)) * pow2 q))"

text \<open>The float operations \<^verbatim>\<open>+\<close>, \<^verbatim>\<open>-\<close>, \<^verbatim>\<open>*\<close>, \<^verbatim>\<open>/\<close>: correctly rounded.\<close>

definition fadd :: "rat \<Rightarrow> rat \<Rightarrow> rat" where
  "fadd a b = to_double (a + b)"

definition fsub :: "rat \<Rightarrow> rat \<Rightarrow> rat" where
  "fsub a b = to_double (a - b)"

definition fmul :: "rat \<Rightarrow> rat \<Rightarrow> rat" where
  "fmul a b = to_double (a * b)"

definition fdiv :: "rat \<Rightarrow> rat \<Rightarrow> rat" where
  "fdiv a b = to_double (a / b)"

text \<open>
  \<^verbatim>\<open>sum(xs)\<close> over floats: the additions from left to right, starting from 0 (CPython
  up to 3.11; later versions compensate the rounding error of the additions).
\<close>

definition fsum :: "rat list \<Rightarrow> rat" where
  "fsum xs = foldl fadd 0 xs"

text \<open>
  \<^verbatim>\<open>round(x, n)\<close> on a float, as CPython does it: the exact value of \<open>x\<close> is rounded to
  \<open>n\<close> decimals, ties to even, and the decimal result is converted back to the
  nearest double.
\<close>

definition py_round :: "rat \<Rightarrow> nat \<Rightarrow> rat" where
  "py_round x n = to_double (of_int (round_half_even (x * 10 ^ n)) / 10 ^ n)"

text \<open>\<^verbatim>\<open>str(n)\<close> for integers, as used by the f-strings.\<close>

definition digit_char :: "nat \<Rightarrow> char" where
  "digit_char n = ''0123456789'' ! (n mod 10)"

fun str_nat :: "nat \<Rightarrow> string" where
  "str_nat n = (if n < 10 then [digit_char n] else str_nat (n div 10) @ [digit_char n])"

declare str_nat.simps [simp del]

definition str_int :: "int \<Rightarrow> string" where
  "str_int k = (if k < 0 then CHR ''-'' # str_nat (nat (- k)) else str_nat (nat k))"

text \<open>\<^verbatim>\<open>f"{x:.0f}"\<close> on the exact value (for the positive amounts it is used on).\<close>

definition fmt_0f :: "rat \<Rightarrow> string" where
  "fmt_0f x = str_int (round_half_even x)"

text \<open>\<^verbatim>\<open>sub in s\<close> on strings.\<close>

fun starts_with :: "string \<Rightarrow> string \<Rightarrow> bool" where
  "starts_with [] s = True"
| "starts_with (c # cs) [] = False"
| "starts_with (c # cs) (d # ds) = (c = d \<and> starts_with cs ds)"

fun contains :: "string \<Rightarrow> string \<Rightarrow> bool" where
  "contains sub [] = (sub = [])"
| "contains sub (c # cs) = (starts_with sub (c # cs) \<or> contains sub cs)"

subsection \<open>Metrics Recorder (\<^verbatim>\<open>src/core/metrics.py\<close>)\<close>

record RequestMetrics =
  timestamp :: rat
  operation :: string
  model :: string
  input_tokens :: int
  output_tokens :: int
  latency_ms :: rat
  cost_usd :: rat
  success :: bool
  error :: "string option"

record MetricsTracker =
  requests :: "RequestMetrics list"
  start_time :: "rat option"

text \<open>\<^verbatim>\<open>MetricsTracker.__init__\<close>.\<close>

definition empty_tracker :: MetricsTracker where
  "empty_tracker = \<lparr>requests = [], start_time = None\<rparr>"

text \<open>
  \<open>now\<close> is the clock reading of the call; the record's \<open>timestamp\<close> (the
  dataclass default \<^verbatim>\<open>datetime.now\<close>) is taken from the same reading.
\<close>

definition start_request :: "rat \<Rightarrow> MetricsTracker \<Rightarrow> MetricsTracker" where
  "start_request now tr = tr\<lparr>start_time := Some now\<rparr>"

definition end_request ::
  "rat \<Rightarrow> string \<Rightarrow> string \<Rightarrow> int \<Rightarrow> int \<Rightarrow> bool \<Rightarrow> string option \<Rightarrow> MetricsTracker
     \<Rightarrow> MetricsTracker" where
  "end_request now op mdl in_tok out_tok ok err tr =
     (let latency = (case start_time tr of
                       None \<Rightarrow> 0
                     | Some t0 \<Rightarrow> if t0 \<noteq> 0 then fmul (fsub now t0) 1000 else 0);
          input_cost = fmul (fdiv (of_int in_tok) 1000000) 3;
          output_cost = fmul (fdiv (of_int out_tok) 1000000) 15;
          total_cost = fadd input_cost output_cost;
          metrics = \<lparr>timestamp = now, operation = op, model = mdl,
                     input_tokens = in_tok, output_tokens = out_tok,
                     latency_ms = latency, cost_usd = total_cost,
                     success = ok, error = err\<rparr>
      in tr\<lparr>requests := requests tr @ [metrics], start_time := None\<rparr>)"

text \<open>
  \<^verbatim>\<open>get_summary\<close>: the dictionary it returns, as a record; the entry
  \<^verbatim>\<open>cost_per_request\<close> is absent when there are no requests.
\<close>

record Summary =
  total_requests :: nat
  total_cost_usd :: rat
  avg_latency_ms :: rat
  success_rate :: rat
  total_tokens :: int
  cost_per_request :: "rat option"

definition get_summary :: "MetricsTracker \<Rightarrow> Summary" where
  "get_summary tr =
     (if requests tr = [] then
        \<lparr>total_requests = 0, total_cost_usd = 0, avg_latency_ms = 0, success_rate = 0,
         total_tokens = 0, cost_per_request = None\<rparr>
      else
        (let total_cost = fsum (map cost_usd (requests tr));
             avg_latency = fdiv (fsum (map latency_ms (requests tr))) (of_nat (length (requests tr)));
             rate = fdiv (of_nat (length (filter success (requests tr))))
                         (of_nat (length (requests tr)));
             tokens = sum_list (map (\<lambda>r. input_tokens r + output_tokens r) (requests tr))
         in \<lparr>total_requests = length (requests tr),
             total_cost_usd = py_round total_cost 4,
             avg_latency_ms = py_round avg_latency 2,
             success_rate = py_round (fmul rate 100) 2,
             total_tokens = tokens,
             cost_per_request =
               Some (py_round (fdiv total_cost (of_nat (length (requests tr)))) 4)\<rparr>))"

subsection \<open>Data model\<close>

record TravelIntent =
  destination :: "string option"
  start_date :: "string option"
  end_date :: "string option"
  duration_days :: "int option"
  num_travelers :: int
  traveler_type :: "string option"
  budget_usd :: "rat option"
  budget_flexibility :: string
  interests :: "string list"
  accommodation_type :: "string option"
  pace :: "string option"
  flight_class :: string
  direct_flights_only :: bool
  must_include :: "string list"
  must_avoid :: "string list"
  original_query :: string
  confidence_score :: rat

record DayPlan =
  day :: int
  date :: string
  morning :: string
  afternoon :: string
  evening :: string
  estimated_cost_usd :: rat
  day_notes :: string

record TripPlan =
  destination :: string
  duration_days :: int
  daily_plans :: "DayPlan list"
  total_estimated_cost :: rat
  highlights :: "string list"
  practical_tips :: "string list"

record FlightOffer =
  price_usd :: rat
  airline :: string
  departure_time :: string
  arrival_time :: string
  duration_hours :: rat
  stops :: int
  cabin_class :: string
  booking_url :: "string option"

record FlightSearchResult =
  origin :: string
  destination :: string
  date :: string
  offers :: "FlightOffer list"
  search_success :: bool
  error_message :: "string option"

record TripRecommendation =
  intent :: TravelIntent
  trip_plan :: TripPlan
  outbound_flights :: "FlightSearchResult option"
  return_flights :: "FlightSearchResult option"
  total_cost_estimate :: rat
  generation_time_ms :: rat
  confidence_score :: rat

record EvaluationMetrics =
  intent_match_score :: rat
  budget_adherence_score :: rat
  feasibility_score :: rat
  completeness_score :: rat
  coherence_score :: rat
  overall_score :: rat
  grade :: string
  latency_ms :: rat
  cost_usd :: rat
  has_critical_errors :: bool
  error_messages :: "string list"
  evaluated_at :: string


subsection \<open>The text service and the libraries\<close>

text \<open>
  One call of \<^verbatim>\<open>client.messages.create\<close>: it raises or returns a response with
  content blocks and token usage. \<open>started\<close> and \<open>finished\<close> are the clock readings
  of the \<^verbatim>\<open>tracker.start_request()\<close> before it and of the
  \<^verbatim>\<open>tracker.end_request(...)\<close> after it.
\<close>

record llm_response =
  content :: "string list"
  usage_input_tokens :: int
  usage_output_tokens :: int

record text_call =
  started :: rat
  finished :: rat
  reply :: "py_error + llm_response"

text \<open>
  Library operations on decoded JSON, of an abstract type \<open>'j\<close>:
  \<^verbatim>\<open>json.loads(text)\<close>, \<^verbatim>\<open>data[key] = value\<close>, \<^verbatim>\<open>float(data.get(key, default))\<close>,
  and the validating constructors \<^verbatim>\<open>TravelIntent(**data)\<close> and \<^verbatim>\<open>TripPlan(**data)\<close>.
\<close>

record 'j py_lib =
  json_loads :: "string \<Rightarrow> py_error + 'j"
  set_item :: "'j \<Rightarrow> string \<Rightarrow> string \<Rightarrow> py_error + 'j"
  get_float :: "'j \<Rightarrow> string \<Rightarrow> rat \<Rightarrow> py_error + rat"
  make_intent :: "'j \<Rightarrow> py_error + TravelIntent"
  make_plan :: "'j \<Rightarrow> py_error + TripPlan"

record Config =
  PRIMARY_MODEL :: string
  SECONDARY_MODEL :: string

text \<open>\<^verbatim>\<open>s.split(sep)\<close> for a non-empty separator, and \<^verbatim>\<open>s.strip()\<close>.\<close>

fun split_from :: "string \<Rightarrow> string \<Rightarrow> string \<Rightarrow> string list" where
  "split_from sep cur [] = [cur]"
| "split_from sep cur (c # cs) =
     (if sep \<noteq> [] \<and> starts_with sep (c # cs)
      then cur # split_from sep [] (drop (length sep - 1) cs)
      else split_from sep (cur @ [c]) cs)"

definition split :: "string \<Rightarrow> string \<Rightarrow> string list" where
  "split s sep = split_from sep [] s"

definition is_space :: "char \<Rightarrow> bool" where
  "is_space c = (let n = (of_char c :: nat) in n = 32 \<or> (9 \<le> n \<and> n \<le> 13) \<or> (28 \<le> n \<and> n \<le> 31))"

definition strip :: "string \<Rightarrow> string" where
  "strip s = rev (dropWhile is_space (rev (dropWhile is_space s)))"

text \<open>
  The fence stripping shared by the three callers of the text service:
  \<^verbatim>\<open>
  if "```json" in response_text:
      response_text = response_text.split("```json")[1].split("```")[0].strip()
  elif "```" in response_text:
      response_text = response_text.split("```")[1].split("```")[0].strip()
  \<close>
\<close>

definition clean_json :: "string \<Rightarrow> py_error + string" where
  "clean_json response_text =
     (if contains ''```json'' response_text then
        (case py_index (split response_text ''```json'') 1 of
           Inl e \<Rightarrow> Inl e
         | Inr a \<Rightarrow> (case py_index (split a ''```'') 0 of
                      Inl e \<Rightarrow> Inl e
                    | Inr b \<Rightarrow> Inr (strip b)))
      else if contains ''```'' response_text then
        (case py_index (split response_text ''```'') 1 of
           Inl e \<Rightarrow> Inl e
         | Inr a \<Rightarrow> (case py_index (split a ''```'') 0 of
                      Inl e \<Rightarrow> Inl e
                    | Inr b \<Rightarrow> Inr (strip b)))
      else Inr response_text)"

subsection \<open>Evaluator (\<^verbatim>\<open>src/evaluation/evaluator.py\<close>)\<close>

text \<open>The loop of check 3: \<open>i\<close> is the index of \<^verbatim>\<open>enumerate\<close>.\<close>

fun coherence_loop :: "nat \<Rightarrow> DayPlan list \<Rightarrow> rat \<Rightarrow> string list \<Rightarrow> rat \<times> string list" where
  "coherence_loop i [] coherence msgs = (coherence, msgs)"
| "coherence_loop i (d # ds) coherence msgs =
     (let (c1, msgs1) =
            (if day d \<noteq> int i + 1
             then (coherence - 2, msgs @ [''Day numbering issue at day '' @ str_nat (i + 1)])
             else (coherence, msgs));
          c2 = (if morning d = [] \<or> afternoon d = [] \<or> evening d = [] then c1 - 1 else c1)
      in coherence_loop (Suc i) ds c2 msgs1)"

definition run_heuristic_checks :: "TripRecommendation \<Rightarrow> EvaluationMetrics \<Rightarrow> EvaluationMetrics" where
  "run_heuristic_checks rec metrics =
     (let intent' = intent rec;
          plan = trip_plan rec;
          m1 = (if daily_plans plan = [] then
                  metrics\<lparr>error_messages := error_messages metrics @ [''No daily plans generated''],
                          has_critical_errors := True,
                          completeness_score := 0\<rparr>
                else if int (length (daily_plans plan)) \<noteq> TripPlan.duration_days plan then
                  metrics\<lparr>error_messages := error_messages metrics @
                             [''Plan has '' @ str_nat (length (daily_plans plan)) @
                              '' days but should have '' @ str_int (TripPlan.duration_days plan)],
                          completeness_score := 5\<rparr>
                else metrics\<lparr>completeness_score := 10\<rparr>);
          m2 = (case budget_usd intent' of
                  None \<Rightarrow> m1\<lparr>budget_adherence_score := 8\<rparr>
                | Some budget \<Rightarrow>
                    if budget \<noteq> 0 \<and> budget > 0 then
                      (let budget_ratio = fdiv (total_cost_estimate rec) budget
                       in if budget_ratio \<le> to_double 1 then m1\<lparr>budget_adherence_score := 10\<rparr>
                          else if budget_ratio \<le> to_double (12 / 10) then m1\<lparr>budget_adherence_score := 7\<rparr>
                          else if budget_ratio \<le> to_double (15 / 10) then m1\<lparr>budget_adherence_score := 4\<rparr>
                          else m1\<lparr>budget_adherence_score := 2,
                                  error_messages := error_messages m1 @
                                    [''Budget exceeded: $'' @ fmt_0f (total_cost_estimate rec) @
                                     '' vs $'' @ fmt_0f budget]\<rparr>)
                    else m1\<lparr>budget_adherence_score := 8\<rparr>);
          (coherence, msgs) = coherence_loop 0 (daily_plans plan) 10 (error_messages m2)
      in m2\<lparr>error_messages := msgs, coherence_score := max 0 coherence\<rparr>)"

text \<open>
  \<^verbatim>\<open>_run_llm_evaluation\<close>. The recommendation only enters the prompt; the reply of the
  service is \<open>reply call\<close>. Every exception inside the \<^verbatim>\<open>try\<close> reaches the one
  handler, which writes the conservative scores.
\<close>

definition llm_fallback ::
  "string \<Rightarrow> text_call \<Rightarrow> MetricsTracker \<Rightarrow> EvaluationMetrics \<Rightarrow> py_error
     \<Rightarrow> MetricsTracker \<times> EvaluationMetrics" where
  "llm_fallback mdl call tr metrics e =
     (end_request (finished call) ''llm_evaluation'' mdl 0 0 False (Some (str_of_error e)) tr,
      metrics\<lparr>intent_match_score := 6, feasibility_score := 6\<rparr>)"

definition run_llm_evaluation ::
  "'j py_lib \<Rightarrow> string \<Rightarrow> text_call \<Rightarrow> TripRecommendation \<Rightarrow> MetricsTracker \<Rightarrow> EvaluationMetrics
     \<Rightarrow> MetricsTracker \<times> EvaluationMetrics" where
  "run_llm_evaluation lib mdl call rec tr metrics =
     (let tr0 = start_request (started call) tr in
      case reply call of
        Inl e \<Rightarrow> llm_fallback mdl call tr0 metrics e
      | Inr response \<Rightarrow>
      (case py_index (content response) 0 of
        Inl e \<Rightarrow> llm_fallback mdl call tr0 metrics e
      | Inr response_text \<Rightarrow>
      (case clean_json response_text of
        Inl e \<Rightarrow> llm_fallback mdl call tr0 metrics e
      | Inr cleaned \<Rightarrow>
      (case json_loads lib cleaned of
        Inl e \<Rightarrow> llm_fallback mdl call tr0 metrics e
      | Inr eval_data \<Rightarrow>
      (case get_float lib eval_data ''intent_match_score'' 7 of
        Inl e \<Rightarrow> llm_fallback mdl call tr0 metrics e
      | Inr im \<Rightarrow>
      (case get_float lib eval_data ''feasibility_score'' 7 of
        Inl e \<Rightarrow> llm_fallback mdl call tr0 (metrics\<lparr>intent_match_score := im\<rparr>) e
      | Inr fs \<Rightarrow>
          (end_request (finished call) ''llm_evaluation'' mdl
             (usage_input_tokens response) (usage_output_tokens response) True None tr0,
           metrics\<lparr>intent_match_score := im, feasibility_score := fs\<rparr>)))))))"

definition calculate_overall_score :: "EvaluationMetrics \<Rightarrow> rat" where
  "calculate_overall_score metrics =
     (if has_critical_errors metrics then 0
      else
        (let score =
               fadd (fadd (fadd (fadd (fmul (intent_match_score metrics) (to_double (30 / 100)))
                                      (fmul (budget_adherence_score metrics) (to_double (25 / 100))))
                                (fmul (feasibility_score metrics) (to_double (20 / 100))))
                          (fmul (completeness_score metrics) (to_double (15 / 100))))
                    (fmul (coherence_score metrics) (to_double (10 / 100)))
         in py_round score 1))"

definition score_to_grade :: "rat \<Rightarrow> string" where
  "score_to_grade score =
     (if score \<ge> 9 then ''A''
      else if score \<ge> 75 / 10 then ''B''
      else if score \<ge> 6 then ''C''
      else if score \<ge> 4 then ''D''
      else ''F'')"

definition calculate_generation_cost :: "MetricsTracker \<Rightarrow> rat" where
  "calculate_generation_cost tr = Summary.total_cost_usd (get_summary tr)"

text \<open>\<open>stamp\<close> is \<^verbatim>\<open>datetime.now().isoformat()\<close> at the start of the evaluation.\<close>

definition evaluate ::
  "'j py_lib \<Rightarrow> Config \<Rightarrow> string \<Rightarrow> text_call \<Rightarrow> MetricsTracker \<Rightarrow> TripRecommendation
     \<Rightarrow> MetricsTracker \<times> EvaluationMetrics" where
  "evaluate lib cfg stamp call tr recommendation =
     (let metrics = \<lparr>intent_match_score = 0, budget_adherence_score = 0, feasibility_score = 0,
                     completeness_score = 0, coherence_score = 0, overall_score = 0,
                     grade = ''F'', latency_ms = generation_time_ms recommendation,
                     cost_usd = calculate_generation_cost tr,
                     has_critical_errors = False, error_messages = [],
                     evaluated_at = stamp\<rparr>;
          m1 = run_heuristic_checks recommendation metrics;
          (tr1, m2) = (if \<not> has_critical_errors m1
                       then run_llm_evaluation lib (SECONDARY_MODEL cfg) call recommendation tr m1
                       else (tr, m1));
          m3 = m2\<lparr>overall_score := calculate_overall_score m2\<rparr>;
          m4 = m3\<lparr>grade := score_to_grade (overall_score m3)\<rparr>
      in (tr1, m4))"

text \<open>
  \<^verbatim>\<open>batch_evaluate\<close>. The loop evaluates the recommendations in order; \<open>io i\<close> is the
  time stamp and the text-service call of the \<open>i\<close>-th evaluation. A Python \<^verbatim>\<open>dict\<close>
  keeps insertion order: the grade histogram is an association list.
\<close>

fun evaluate_all ::
  "'j py_lib \<Rightarrow> Config \<Rightarrow> (nat \<Rightarrow> string \<times> text_call) \<Rightarrow> nat \<Rightarrow> MetricsTracker
     \<Rightarrow> TripRecommendation list \<Rightarrow> MetricsTracker \<times> EvaluationMetrics list" where
  "evaluate_all lib cfg io i tr [] = (tr, [])"
| "evaluate_all lib cfg io i tr (rec # recs) =
     (let (tr1, metrics) = evaluate lib cfg (fst (io i)) (snd (io i)) tr rec;
          (tr2, results) = evaluate_all lib cfg io (Suc i) tr1 recs
      in (tr2, metrics # results))"

definition py_div :: "rat \<Rightarrow> nat \<Rightarrow> py_error + rat" where
  "py_div x n = (if n = 0 then Inl ZeroDivisionError else Inr (fdiv x (of_nat n)))"

definition dict_get :: "('k \<times> 'v) list \<Rightarrow> 'k \<Rightarrow> 'v \<Rightarrow> 'v" where
  "dict_get d k dflt = (case map_of d k of None \<Rightarrow> dflt | Some v \<Rightarrow> v)"

fun dict_set :: "('k \<times> 'v) list \<Rightarrow> 'k \<Rightarrow> 'v \<Rightarrow> ('k \<times> 'v) list" where
  "dict_set [] k v = [(k, v)]"
| "dict_set (p # ps) k v = (if fst p = k then (k, v) # ps else p # dict_set ps k v)"

fun count_grades :: "(string \<times> nat) list \<Rightarrow> EvaluationMetrics list \<Rightarrow> (string \<times> nat) list" where
  "count_grades grade_distribution [] = grade_distribution"
| "count_grades grade_distribution (m # ms) =
     count_grades (dict_set grade_distribution (grade m) (dict_get grade_distribution (grade m) 0 + 1)) ms"

record BatchResult =
  total_evaluated :: nat
  average_score :: rat
  average_latency_ms :: rat
  total_cost_usd :: rat
  grade_distribution :: "(string \<times> nat) list"
  all_metrics :: "EvaluationMetrics list"

definition batch_evaluate ::
  "'j py_lib \<Rightarrow> Config \<Rightarrow> (nat \<Rightarrow> string \<times> text_call) \<Rightarrow> MetricsTracker
     \<Rightarrow> TripRecommendation list \<Rightarrow> MetricsTracker \<times> (py_error + BatchResult)" where
  "batch_evaluate lib cfg io tr recommendations =
     (let (tr1, results) = evaluate_all lib cfg io 0 tr recommendations in
      case py_div (fsum (map overall_score results)) (length results) of
        Inl e \<Rightarrow> (tr1, Inl e)
      | Inr avg_score \<Rightarrow>
      (case py_div (fsum (map EvaluationMetrics.latency_ms results)) (length results) of
        Inl e \<Rightarrow> (tr1, Inl e)
      | Inr avg_latency \<Rightarrow>
          (let total_cost = fsum (map EvaluationMetrics.cost_usd results)
           in (tr1, Inr \<lparr>total_evaluated = length results,
                          average_score = py_round avg_score 2,
                          average_latency_ms = py_round avg_latency 2,
                          total_cost_usd = py_round total_cost 4,
                          grade_distribution = count_grades [] results,
                          all_metrics = results\<rparr>))))"

subsection \<open>Intent Extractor (\<^verbatim>\<open>src/agents/intent_extractor.py\<close>)\<close>

text \<open>The optional context dictionary: keys in insertion order.\<close>

type_synonym py_context = "(string \<times> string) list option"

text \<open>The field defaults of the class \<^verbatim>\<open>TravelIntent\<close>.\<close>

definition default_TravelIntent :: TravelIntent where
  "default_TravelIntent =
     \<lparr>TravelIntent.destination = None, start_date = None, end_date = None,
      TravelIntent.duration_days = None, num_travelers = 1, traveler_type = None,
      budget_usd = None, budget_flexibility = ''moderate'', interests = [],
      accommodation_type = None, pace = Some ''moderate'', flight_class = ''economy'',
      direct_flights_only = False, must_include = [], must_avoid = [],
      original_query = [], TravelIntent.confidence_score = 0\<rparr>"

text \<open>
  The handler of \<^verbatim>\<open>except Exception as e\<close>: it sees the tracker as the \<^verbatim>\<open>try\<close> body
  left it.
\<close>

definition extract_fallback ::
  "Config \<Rightarrow> text_call \<Rightarrow> string \<Rightarrow> MetricsTracker \<Rightarrow> py_error \<Rightarrow> MetricsTracker \<times> TravelIntent" where
  "extract_fallback cfg call user_query tr e =
     (end_request (finished call) ''intent_extraction'' (PRIMARY_MODEL cfg) 0 0 False
        (Some (str_of_error e)) tr,
      default_TravelIntent\<lparr>original_query := user_query, TravelIntent.confidence_score := 1 / 10\<rparr>)"

text \<open>\<^verbatim>\<open>IntentExtractor.extract\<close>. The context \<open>ctx\<close> only enters the prompt.\<close>

definition extract_intent ::
  "'j py_lib \<Rightarrow> Config \<Rightarrow> text_call \<Rightarrow> MetricsTracker \<Rightarrow> string \<Rightarrow> py_context
     \<Rightarrow> MetricsTracker \<times> TravelIntent" where
  "extract_intent lib cfg call tr user_query ctx =
     (let tr0 = start_request (started call) tr in
      case reply call of
        Inl e \<Rightarrow> extract_fallback cfg call user_query tr0 e
      | Inr response \<Rightarrow>
      (case py_index (content response) 0 of
        Inl e \<Rightarrow> extract_fallback cfg call user_query tr0 e
      | Inr response_text \<Rightarrow>
      (case clean_json response_text of
        Inl e \<Rightarrow> extract_fallback cfg call user_query tr0 e
      | Inr cleaned \<Rightarrow>
      (case json_loads lib cleaned of
        Inl e \<Rightarrow> extract_fallback cfg call user_query tr0 e
      | Inr loaded \<Rightarrow>
      (case set_item lib loaded ''original_query'' user_query of
        Inl e \<Rightarrow> extract_fallback cfg call user_query tr0 e
      | Inr intent_data \<Rightarrow>
          (let tr1 = end_request (finished call) ''intent_extraction'' (PRIMARY_MODEL cfg)
                       (usage_input_tokens response) (usage_output_tokens response) True None tr0
           in case make_intent lib intent_data of
                Inl e \<Rightarrow> extract_fallback cfg call user_query tr1 e
              | Inr intent' \<Rightarrow> (tr1, intent')))))))"

definition validate_intent :: "TravelIntent \<Rightarrow> bool \<times> string list" where
  "validate_intent intent' =
     (let missing = [];
          missing = (if \<not> truthy_str (TravelIntent.destination intent')
                     then missing @ [''destination''] else missing);
          missing = (if \<not> truthy_str (start_date intent') \<and> \<not> truthy_int (TravelIntent.duration_days intent')
                     then missing @ [''dates or duration''] else missing);
          missing = (if TravelIntent.confidence_score intent' < 3 / 10
                     then missing @ [''high confidence extraction''] else missing)
      in (length missing = 0, missing))"

subsection \<open>Plan Generator (\<^verbatim>\<open>src/agents/trip_planner.py\<close>)\<close>

definition plan_failed ::
  "Config \<Rightarrow> text_call \<Rightarrow> MetricsTracker \<Rightarrow> py_error \<Rightarrow> MetricsTracker \<times> (py_error + TripPlan)" where
  "plan_failed cfg call tr e =
     (end_request (finished call) ''trip_planning'' (PRIMARY_MODEL cfg) 0 0 False
        (Some (str_of_error e)) tr,
      Inl e)"

text \<open>\<^verbatim>\<open>plan_trip\<close>. Intent and context \<open>ctx\<close> only enter the prompt.\<close>

definition plan_trip ::
  "'j py_lib \<Rightarrow> Config \<Rightarrow> text_call \<Rightarrow> MetricsTracker \<Rightarrow> TravelIntent \<Rightarrow> py_context
     \<Rightarrow> MetricsTracker \<times> (py_error + TripPlan)" where
  "plan_trip lib cfg call tr intent' ctx =
     (let tr0 = start_request (started call) tr in
      case reply call of
        Inl e \<Rightarrow> plan_failed cfg call tr0 e
      | Inr response \<Rightarrow>
      (case py_index (content response) 0 of
        Inl e \<Rightarrow> plan_failed cfg call tr0 e
      | Inr response_text \<Rightarrow>
      (case clean_json response_text of
        Inl e \<Rightarrow> plan_failed cfg call tr0 e
      | Inr cleaned \<Rightarrow>
      (case json_loads lib cleaned of
        Inl e \<Rightarrow> plan_failed cfg call tr0 e
      | Inr plan_data \<Rightarrow>
          (let tr1 = end_request (finished call) ''trip_planning'' (PRIMARY_MODEL cfg)
                       (usage_input_tokens response) (usage_output_tokens response) True None tr0
           in case make_plan lib plan_data of
                Inl e \<Rightarrow> plan_failed cfg call tr1 e
              | Inr plan \<Rightarrow> (tr1, Inr plan))))))"

subsection \<open>Flight Augmenter (\<^verbatim>\<open>src/api/flights.py\<close>)\<close>

text \<open>\<^verbatim>\<open>get_mock_flights\<close>: the fixed three offers.\<close>

definition get_mock_flights :: "string \<Rightarrow> string \<Rightarrow> string \<Rightarrow> FlightSearchResult" where
  "get_mock_flights origin' destination' departure_date =
     (let offers' =
            [\<lparr>price_usd = 450, airline = ''TG'',
              departure_time = departure_date @ ''T10:30:00'',
              arrival_time = departure_date @ ''T18:45:00'',
              duration_hours = 825 / 100, stops = 0, cabin_class = ''ECONOMY'', booking_url = None\<rparr>,
             \<lparr>price_usd = 385, airline = ''SQ'',
              departure_time = departure_date @ ''T14:15:00'',
              arrival_time = departure_date @ ''T23:30:00'',
              duration_hours = 925 / 100, stops = 1, cabin_class = ''ECONOMY'', booking_url = None\<rparr>,
             \<lparr>price_usd = 520, airline = ''EK'',
              departure_time = departure_date @ ''T08:00:00'',
              arrival_time = departure_date @ ''T16:20:00'',
              duration_hours = 833 / 100, stops = 0, cabin_class = ''ECONOMY'', booking_url = None\<rparr>]
      in \<lparr>origin = origin', FlightSearchResult.destination = destination', date = departure_date,
          offers = offers', search_success = True, error_message = None\<rparr>)"

subsection \<open>Recommendation Orchestrator (\<^verbatim>\<open>src/agents/orchestrator.py\<close>)\<close>

text \<open>\<^verbatim>\<open>s.lower()\<close> and \<^verbatim>\<open>s.upper()\<close> on ASCII text.\<close>

definition lower_char :: "char \<Rightarrow> char" where
  "lower_char c =
     (case map_of (zip ''ABCDEFGHIJKLMNOPQRSTUVWXYZ'' ''abcdefghijklmnopqrstuvwxyz'') c of
        None \<Rightarrow> c | Some d \<Rightarrow> d)"

definition upper_char :: "char \<Rightarrow> char" where
  "upper_char c =
     (case map_of (zip ''abcdefghijklmnopqrstuvwxyz'' ''ABCDEFGHIJKLMNOPQRSTUVWXYZ'') c of
        None \<Rightarrow> c | Some d \<Rightarrow> d)"

definition lower :: "string \<Rightarrow> string" where
  "lower s = map lower_char s"

definition upper :: "string \<Rightarrow> string" where
  "upper s = map upper_char s"

text \<open>The table of \<^verbatim>\<open>_get_airport_code\<close>, in the order the dictionary literal lists it.\<close>

definition airport_map :: "(string \<times> string) list" where
  "airport_map =
     [(''bangkok'', ''BKK''),
      (''thailand'', ''BKK''),
      (''new york'', ''JFK''),
      (''nyc'', ''JFK''),
      (''london'', ''LHR''),
      (''paris'', ''CDG''),
      (''tokyo'', ''NRT''),
      (''singapore'', ''SIN''),
      (''dubai'', ''DXB''),
      (''hong kong'', ''HKG''),
      (''bali'', ''DPS''),
      (''phuket'', ''HKT''),
      (''mumbai'', ''BOM''),
      (''delhi'', ''DEL''),
      (''sydney'', ''SYD'')]"

text \<open>The loop \<^verbatim>\<open>for key, code in airport_map.items()\<close> with its early return.\<close>

fun airport_loop :: "(string \<times> string) list \<Rightarrow> string \<Rightarrow> string option" where
  "airport_loop [] location_lower = None"
| "airport_loop ((key, code) # rest) location_lower =
     (if contains key location_lower then Some code else airport_loop rest location_lower)"

definition get_airport_code :: "string \<Rightarrow> string" where
  "get_airport_code location =
     (let location_lower = lower location
      in case airport_loop airport_map location_lower of
           Some code \<Rightarrow> code
         | None \<Rightarrow> ''JFK'')"

definition calculate_confidence ::
  "TravelIntent \<Rightarrow> TripPlan \<Rightarrow> FlightSearchResult option \<Rightarrow> rat" where
  "calculate_confidence intent' plan flights =
     (let scores = [TravelIntent.confidence_score intent'];
          plan_score =
            (if daily_plans plan = [] then 0
             else if int (length (daily_plans plan)) <
                       (case TravelIntent.duration_days intent' of
                          None \<Rightarrow> 1
                        | Some d \<Rightarrow> if d \<noteq> 0 then d else 1)
                  then 7 / 10
             else 1);
          scores = scores @ [plan_score];
          scores = (case flights of
                      None \<Rightarrow> scores
                    | Some fl \<Rightarrow>
                        scores @ [if search_success fl \<and> offers fl \<noteq> [] then 1 else 1 / 2])
      in if scores \<noteq> [] then sum_list scores / of_nat (length scores) else 1 / 2)"

text \<open>
  What the outside world supplies to one \<^verbatim>\<open>process_query\<close>: the two calls of the text
  service, the pricing service behind \<^verbatim>\<open>flight_api.search_flights\<close> (which catches its
  own failures and always returns a result), and the two readings of
  \<^verbatim>\<open>datetime.now()\<close>.
\<close>

record pipeline_io =
  intent_call :: text_call
  plan_call :: text_call
  search_flights :: "string \<Rightarrow> string \<Rightarrow> string \<Rightarrow> string option \<Rightarrow> int \<Rightarrow> string \<Rightarrow> FlightSearchResult"
  clock_start :: rat
  clock_end :: rat

text \<open>\<^verbatim>\<open>context.get('origin', 'NYC') if context else 'NYC'\<close>\<close>

definition context_origin :: "py_context \<Rightarrow> string" where
  "context_origin ctx =
     (case ctx of
        None \<Rightarrow> ''NYC''
      | Some d \<Rightarrow> if d = [] then ''NYC'' else dict_get d ''origin'' ''NYC'')"

text \<open>Step 3 of \<^verbatim>\<open>process_query\<close>: the flight search, when it is made.\<close>

definition search_outbound ::
  "pipeline_io \<Rightarrow> bool \<Rightarrow> bool \<Rightarrow> py_context \<Rightarrow> TravelIntent \<Rightarrow> FlightSearchResult option" where
  "search_outbound io use_real_apis include_flights ctx intent' =
     (case (TravelIntent.destination intent', start_date intent') of
        (Some dest, Some start) \<Rightarrow>
          if include_flights \<and> dest \<noteq> [] \<and> start \<noteq> [] then
            (let origin_code = get_airport_code (context_origin ctx);
                 dest_code = get_airport_code dest
             in if use_real_apis
                then Some (search_flights io origin_code dest_code start (end_date intent')
                             (num_travelers intent') (upper (flight_class intent')))
                else Some (get_mock_flights origin_code dest_code
                             (if start \<noteq> [] then start else ''2026-03-15'')))
          else None
      | _ \<Rightarrow> None)"

text \<open>
  \<^verbatim>\<open>process_query\<close>. The result of \<^verbatim>\<open>validate_intent\<close> is only printed. An exception
  of \<^verbatim>\<open>plan_trip\<close> is not caught.
\<close>

definition process_query ::
  "'j py_lib \<Rightarrow> Config \<Rightarrow> pipeline_io \<Rightarrow> bool \<Rightarrow> MetricsTracker \<Rightarrow> string \<Rightarrow> bool \<Rightarrow> py_context
     \<Rightarrow> MetricsTracker \<times> (py_error + TripRecommendation)" where
  "process_query lib cfg io use_real_apis tr user_query include_flights ctx =
     (let (tr1, intent') = extract_intent lib cfg (intent_call io) tr user_query ctx in
      case plan_trip lib cfg (plan_call io) tr1 intent' ctx of
        (tr2, Inl e) \<Rightarrow> (tr2, Inl e)
      | (tr2, Inr plan) \<Rightarrow>
          (let outbound = search_outbound io use_real_apis include_flights ctx intent';
               total_cost = total_estimated_cost plan;
               total_cost =
                 (case outbound of
                    None \<Rightarrow> total_cost
                  | Some fl \<Rightarrow>
                      if offers fl \<noteq> [] then
                        (let flight_cost =
                               min_list (map price_usd (offers fl)) * of_int (num_travelers intent');
                             flight_cost = (if truthy_str (end_date intent')
                                            then flight_cost * 2 else flight_cost)
                         in total_cost + flight_cost)
                      else total_cost);
               confidence = calculate_confidence intent' plan outbound;
               generation_time = (clock_end io - clock_start io) * 1000
           in (tr2, Inr \<lparr>intent = intent', trip_plan = plan, outbound_flights = outbound,
                          return_flights = None, total_cost_estimate = total_cost,
                          generation_time_ms = generation_time,
                          TripRecommendation.confidence_score = confidence\<rparr>)))"

subsection \<open>The specification's wording, for comparison\<close>

text \<open>
  The overall confidence as the specification words it: the mean of the intent's
  confidence, the plan-completeness score (a missing duration counting as 1) and,
  ``if flights were requested'', a flight score that is 1 if the search succeeded with
  at least one offer and 0.5 otherwise.
\<close>

definition spec_confidence ::
  "bool \<Rightarrow> TravelIntent \<Rightarrow> TripPlan \<Rightarrow> FlightSearchResult option \<Rightarrow> rat" where
  "spec_confidence flights_requested intent' plan flights =
     (let plan_score =
            (if daily_plans plan = [] then 0
             else if int (length (daily_plans plan)) <
                       (case TravelIntent.duration_days intent' of None \<Rightarrow> 1 | Some d \<Rightarrow> d)
                  then 7 / 10
             else 1);
          flight_score =
            (case flights of
               None \<Rightarrow> 1 / 2
             | Some fl \<Rightarrow> if search_success fl \<and> offers fl \<noteq> [] then 1 else 1 / 2)
      in if flights_requested
         then (TravelIntent.confidence_score intent' + plan_score + flight_score) / 3
         else (TravelIntent.confidence_score intent' + plan_score) / 2)"

text \<open>
  Airport-code resolution as the specification's first sentence words it: the code of
  the longest table key contained in the lowercased location (the codes of all keys
  of that maximal length), the default when no key is contained.
\<close>

definition spec_longest_match :: "string \<Rightarrow> string list" where
  "spec_longest_match location =
     (let hits = filter (\<lambda>(key, code). contains key (lower location)) airport_map;
          longest = fold max (map (\<lambda>(key, code). length key) hits) 0
      in if hits = [] then [''JFK'']
         else map snd (filter (\<lambda>(key, code). length key = longest) hits))"

subsection \<open>Example inputs\<close>

definition example_intent :: TravelIntent where
  "example_intent =
     \<lparr>TravelIntent.destination = Some ''Thailand'', start_date = None, end_date = None,
      TravelIntent.duration_days = Some 3, num_travelers = 1, traveler_type = None,
      budget_usd = Some 1000, budget_flexibility = ''moderate'', interests = [''beach''],
      accommodation_type = None, pace = Some ''moderate'', flight_class = ''economy'',
      direct_flights_only = False, must_include = [], must_avoid = [],
      original_query = ''3-day beach vacation in Thailand under $1000'',
      TravelIntent.confidence_score = 9 / 10\<rparr>"

definition example_day :: "int \<Rightarrow> DayPlan" where
  "example_day n =
     \<lparr>day = n, date = ''2026-03-15'', morning = ''Temple visit'', afternoon = ''Floating market'',
      evening = ''Street food tour'', estimated_cost_usd = 100, day_notes = ''''\<rparr>"

definition example_plan :: "int list \<Rightarrow> TripPlan" where
  "example_plan ns =
     \<lparr>TripPlan.destination = ''Bangkok'', TripPlan.duration_days = 3, daily_plans = map example_day ns,
      total_estimated_cost = 900, highlights = [''Grand Palace''], practical_tips = [''Carry cash'']\<rparr>"

definition example_rec :: "int list \<Rightarrow> rat \<Rightarrow> TripRecommendation" where
  "example_rec ns cost =
     \<lparr>intent = example_intent, trip_plan = example_plan ns, outbound_flights = None,
      return_flights = None, total_cost_estimate = cost, generation_time_ms = 1500,
      confidence_score = 95 / 100\<rparr>"

text \<open>
  A small stand-in for the libraries: decoded JSON is the text itself, paired with the
  \<open>original_query\<close> entry once it is set; the empty text does not decode; a text
  mentioning Thailand validates as \<open>example_intent\<close> (with travel dates when it
  mentions 2026-03-15) and one with \<open>daily_plans\<close> as
  the three-day \<open>example_plan\<close>.
\<close>

definition example_lib :: "(string \<times> string option) py_lib" where
  "example_lib =
     \<lparr>json_loads = (\<lambda>s. if s = [] then Inl (PyError ''JSONDecodeError'' ''Expecting value'')
                        else Inr (s, None)),
      set_item = (\<lambda>d k v. if k = ''original_query'' then Inr (fst d, Some v) else Inr d),
      get_float = (\<lambda>d k dflt. Inr dflt),
      make_intent = (\<lambda>d. if contains ''Thailand'' (fst d)
                         then Inr ((if contains ''2026-03-15'' (fst d)
                                    then example_intent\<lparr>start_date := Some ''2026-03-15'',
                                                          end_date := Some ''2026-03-18''\<rparr>
                                    else example_intent)
                                   \<lparr>original_query :=
                                      (case snd d of None \<Rightarrow> [] | Some q \<Rightarrow> q)\<rparr>)
                         else Inl (PyError ''ValidationError'' ''validation error for TravelIntent'')),
      make_plan = (\<lambda>d. if contains ''daily_plans'' (fst d)
                       then Inr (example_plan [1, 2, 3])
                       else Inl (PyError ''ValidationError'' ''validation error for TripPlan''))\<rparr>"

text \<open>
  The same libraries with a rubric reply in which \<^verbatim>\<open>intent_match_score\<close> is 6 and
  \<^verbatim>\<open>feasibility_score\<close> is absent, so that \<^verbatim>\<open>get\<close> falls back to its default.
\<close>

definition rubric_lib :: "(string \<times> string option) py_lib" where
  "rubric_lib =
     example_lib\<lparr>get_float := (\<lambda>d k dflt. if k = ''intent_match_score'' then Inr 6 else Inr dflt)\<rparr>"

text \<open>The field defaults of the class \<^verbatim>\<open>EvaluationMetrics\<close>.\<close>

definition blank_metrics :: EvaluationMetrics where
  "blank_metrics =
     \<lparr>intent_match_score = 0, budget_adherence_score = 0, feasibility_score = 0,
      completeness_score = 0, coherence_score = 0, overall_score = 0, grade = ''F'',
      latency_ms = 0, cost_usd = 0, has_critical_errors = False, error_messages = [],
      evaluated_at = []\<rparr>"

definition example_cfg :: Config where
  "example_cfg = \<lparr>PRIMARY_MODEL = ''claude-sonnet-4-20250514'',
                   SECONDARY_MODEL = ''claude-sonnet-4-20250514''\<rparr>"

definition failing_call :: text_call where
  "failing_call = \<lparr>started = 0, finished = 1,
                    reply = Inl (PyError ''APIConnectionError'' ''Connection error.'')\<rparr>"


text \<open>A successful call whose reply is the text \<open>t\<close>, with no token usage reported.\<close>

definition text_reply :: "string \<Rightarrow> text_call" where
  "text_reply t = \<lparr>started = 100, finished = 102,
                   reply = Inr \<lparr>content = [t], usage_input_tokens = 0, usage_output_tokens = 0\<rparr>\<rparr>"

definition example_io :: "string \<Rightarrow> pipeline_io" where
  "example_io intent_text =
     \<lparr>intent_call = text_reply intent_text,
      plan_call = text_reply ''{daily_plans: [day 1, day 2, day 3]}'',
      search_flights = (\<lambda>org dst dep ret adults cabin.
         \<lparr>origin = org, FlightSearchResult.destination = dst, date = dep, offers = [],
          search_success = False, error_message = Some ''Authentication failed''\<rparr>),
      clock_start = 100, clock_end = 105\<rparr>"

section \<open>Properties\<close>

subsection \<open>Evaluator: the heuristic stage and what the rubric stage leaves alone\<close>

lemma coherence_loop_fst:
  "fst (coherence_loop i ds c msgs) =
     c - 2 * of_nat (length (filter (\<lambda>(j, d). day d \<noteq> int j + 1) (enumerate i ds)))
       - of_nat (length (filter (\<lambda>d. morning d = [] \<or> afternoon d = [] \<or> evening d = []) ds))"
  by (induction ds arbitrary: i c msgs) (auto simp: Let_def)

lemma coherence_loop_snd:
  "snd (coherence_loop i ds c msgs) =
     msgs @ map (\<lambda>(j, d). ''Day numbering issue at day '' @ str_nat (j + 1))
              (filter (\<lambda>(j, d). day d \<noteq> int j + 1) (enumerate i ds))"
  by (induction ds arbitrary: i c msgs) (auto simp: Let_def)

lemma heur_completeness:
  "completeness_score (run_heuristic_checks rec m) =
     (if daily_plans (trip_plan rec) = [] then 0
      else if int (length (daily_plans (trip_plan rec))) \<noteq> TripPlan.duration_days (trip_plan rec) then 5
      else 10)"
  by (simp add: run_heuristic_checks_def Let_def split: option.splits prod.splits)

lemma heur_critical:
  "has_critical_errors (run_heuristic_checks rec m) =
     (has_critical_errors m \<or> daily_plans (trip_plan rec) = [])"
  by (simp add: run_heuristic_checks_def Let_def split: option.splits prod.splits)

lemma llm_fallback_fields:
  "completeness_score (snd (llm_fallback mdl call tr m e)) = completeness_score m"
  "budget_adherence_score (snd (llm_fallback mdl call tr m e)) = budget_adherence_score m"
  "coherence_score (snd (llm_fallback mdl call tr m e)) = coherence_score m"
  "has_critical_errors (snd (llm_fallback mdl call tr m e)) = has_critical_errors m"
  "error_messages (snd (llm_fallback mdl call tr m e)) = error_messages m"
  by (simp_all add: llm_fallback_def)

lemma llm_fields:
  "completeness_score (snd (run_llm_evaluation lib mdl call rec tr m)) = completeness_score m"
  "budget_adherence_score (snd (run_llm_evaluation lib mdl call rec tr m)) = budget_adherence_score m"
  "coherence_score (snd (run_llm_evaluation lib mdl call rec tr m)) = coherence_score m"
  "has_critical_errors (snd (run_llm_evaluation lib mdl call rec tr m)) = has_critical_errors m"
  "error_messages (snd (run_llm_evaluation lib mdl call rec tr m)) = error_messages m"
  by (simp_all add: run_llm_evaluation_def Let_def llm_fallback_fields split: sum.splits)

text \<open>
  Rounded digits, as the machine produces them. A request of 350 input and 120 output
  tokens costs the double just above 0.00285, which \<^verbatim>\<open>round(_, 4)\<close> takes to 0.0029;
  the mean of 8.0 and 7.65 is the double just above 7.825, which \<^verbatim>\<open>round(_, 2)\<close> takes
  to 7.83.
\<close>

lemma example_rounded_digits:
  "Summary.total_cost_usd
     (get_summary (end_request 102 ''trip_planning'' ''m'' 350 120 True None
                     (start_request 100 empty_tracker))) = to_double (29 / 10000)"
  "py_round (fdiv (fsum [8, to_double (765 / 100)]) 2) 2 = to_double (783 / 100)"
  by code_simp+

text \<open>The doubles that the literals \<^verbatim>\<open>1.0\<close>, \<^verbatim>\<open>1.2\<close> and \<^verbatim>\<open>1.5\<close> denote.\<close>

lemma to_double_0 [simp]: "to_double 0 = 0"
  by (simp add: to_double_def)

lemma to_double_literals:
  "to_double 1 = 1"
  "to_double (12 / 10) = 5404319552844595 / 4503599627370496"
  "to_double (6 / 5) = 5404319552844595 / 4503599627370496"
  "to_double (15 / 10) = 15 / 10"
  "to_double (3 / 2) = 3 / 2"
  by code_simp+

lemma heur_budget:
  "budget_adherence_score (run_heuristic_checks rec m) =
     (case budget_usd (intent rec) of
        None \<Rightarrow> 8
      | Some b \<Rightarrow>
          if 0 < b then
            (if fdiv (total_cost_estimate rec) b \<le> 1 then 10
             else if fdiv (total_cost_estimate rec) b \<le> to_double (12 / 10) then 7
             else if fdiv (total_cost_estimate rec) b \<le> 15 / 10 then 4
             else 2)
          else 8)"
  by (simp add: run_heuristic_checks_def Let_def case_prod_unfold to_double_literals split: option.splits)

lemma heur_coherence:
  "coherence_score (run_heuristic_checks rec m) =
     max 0 (fst (coherence_loop 0 (daily_plans (trip_plan rec)) 10 []))"
  by (simp add: run_heuristic_checks_def Let_def case_prod_unfold coherence_loop_fst split: option.splits)

lemma heur_messages:
  "error_messages (run_heuristic_checks rec m) =
     error_messages m @
     (if daily_plans (trip_plan rec) = [] then [''No daily plans generated'']
      else if int (length (daily_plans (trip_plan rec))) \<noteq> TripPlan.duration_days (trip_plan rec) then
        [''Plan has '' @ str_nat (length (daily_plans (trip_plan rec))) @
         '' days but should have '' @ str_int (TripPlan.duration_days (trip_plan rec))]
      else []) @
     (case budget_usd (intent rec) of
        None \<Rightarrow> []
      | Some b \<Rightarrow>
          if 0 < b \<and> \<not> fdiv (total_cost_estimate rec) b \<le> 15 / 10 then
            [''Budget exceeded: $'' @ fmt_0f (total_cost_estimate rec) @ '' vs $'' @ fmt_0f b]
          else []) @
     snd (coherence_loop 0 (daily_plans (trip_plan rec)) 10 [])"
  by (auto simp add: run_heuristic_checks_def Let_def case_prod_unfold coherence_loop_snd to_double_literals
      split: option.splits)

lemma evaluate_completeness:
  "completeness_score (snd (evaluate lib cfg stamp call tr rec)) =
     (if daily_plans (trip_plan rec) = [] then 0
      else if int (length (daily_plans (trip_plan rec))) \<noteq> TripPlan.duration_days (trip_plan rec) then 5
      else 10)"
  by (simp add: evaluate_def Let_def case_prod_unfold llm_fields heur_completeness)

lemma evaluate_critical:
  "has_critical_errors (snd (evaluate lib cfg stamp call tr rec)) = (daily_plans (trip_plan rec) = [])"
  by (simp add: evaluate_def Let_def case_prod_unfold llm_fields heur_critical)

lemma evaluate_budget:
  "budget_adherence_score (snd (evaluate lib cfg stamp call tr rec)) =
     (case budget_usd (intent rec) of
        None \<Rightarrow> 8
      | Some b \<Rightarrow>
          if 0 < b then
            (if fdiv (total_cost_estimate rec) b \<le> 1 then 10
             else if fdiv (total_cost_estimate rec) b \<le> to_double (12 / 10) then 7
             else if fdiv (total_cost_estimate rec) b \<le> 15 / 10 then 4
             else 2)
          else 8)"
  by (simp add: evaluate_def Let_def case_prod_unfold llm_fields heur_budget)

lemma evaluate_coherence:
  "coherence_score (snd (evaluate lib cfg stamp call tr rec)) =
     max 0 (fst (coherence_loop 0 (daily_plans (trip_plan rec)) 10 []))"
  by (simp add: evaluate_def Let_def case_prod_unfold llm_fields heur_coherence)

lemma evaluate_messages:
  "error_messages (snd (evaluate lib cfg stamp call tr rec)) =
     (if daily_plans (trip_plan rec) = [] then [''No daily plans generated'']
      else if int (length (daily_plans (trip_plan rec))) \<noteq> TripPlan.duration_days (trip_plan rec) then
        [''Plan has '' @ str_nat (length (daily_plans (trip_plan rec))) @
         '' days but should have '' @ str_int (TripPlan.duration_days (trip_plan rec))]
      else []) @
     (case budget_usd (intent rec) of
        None \<Rightarrow> []
      | Some b \<Rightarrow>
          if 0 < b \<and> \<not> fdiv (total_cost_estimate rec) b \<le> 15 / 10 then
            [''Budget exceeded: $'' @ fmt_0f (total_cost_estimate rec) @ '' vs $'' @ fmt_0f b]
          else []) @
     snd (coherence_loop 0 (daily_plans (trip_plan rec)) 10 [])"
  by (simp add: evaluate_def Let_def case_prod_unfold llm_fields heur_messages)

subsection \<open>Completeness\<close>

text \<open>
  Claim C5. For every evaluated recommendation the completeness score is 0 exactly
  when the plan's day sequence is empty, and then the critical-error flag is set and
  the message ``No daily plans generated'' is recorded; it is 5 exactly when the day
  sequence is non-empty and its length differs from the plan's \<open>duration_days\<close>;
  and it is 10 in the remaining case.
\<close>

theorem completeness_score_cases:
  "(completeness_score (snd (evaluate lib cfg stamp call tr rec)) = 0
      \<longleftrightarrow> daily_plans (trip_plan rec) = []) \<and>
   (daily_plans (trip_plan rec) = []
      \<longrightarrow> has_critical_errors (snd (evaluate lib cfg stamp call tr rec)) \<and>
          ''No daily plans generated'' \<in> set (error_messages (snd (evaluate lib cfg stamp call tr rec)))) \<and>
   (completeness_score (snd (evaluate lib cfg stamp call tr rec)) = 5
      \<longleftrightarrow> daily_plans (trip_plan rec) \<noteq> [] \<and>
          int (length (daily_plans (trip_plan rec))) \<noteq> TripPlan.duration_days (trip_plan rec)) \<and>
   (completeness_score (snd (evaluate lib cfg stamp call tr rec)) = 10
      \<longleftrightarrow> daily_plans (trip_plan rec) \<noteq> [] \<and>
          int (length (daily_plans (trip_plan rec))) = TripPlan.duration_days (trip_plan rec))"
  by (simp add: evaluate_completeness evaluate_critical evaluate_messages)

theorem completeness_score_cases_witness:
  "has_critical_errors (snd (evaluate example_lib example_cfg [] failing_call empty_tracker (example_rec [] 900))) \<and>
   ''No daily plans generated'' \<in> set (error_messages
       (snd (evaluate example_lib example_cfg [] failing_call empty_tracker (example_rec [] 900)))) \<and>
   completeness_score (snd (evaluate example_lib example_cfg [] failing_call empty_tracker (example_rec [] 900))) = 0 \<and>
   completeness_score (snd (evaluate example_lib example_cfg [] failing_call empty_tracker (example_rec [1, 2] 900))) = 5 \<and>
   completeness_score (snd (evaluate example_lib example_cfg [] failing_call empty_tracker (example_rec [1, 2, 3] 900))) = 10"
  using completeness_score_cases [of example_lib example_cfg "[]" failing_call empty_tracker "example_rec [] 900"]
    completeness_score_cases [of example_lib example_cfg "[]" failing_call empty_tracker "example_rec [1, 2] 900"]
    completeness_score_cases [of example_lib example_cfg "[]" failing_call empty_tracker "example_rec [1, 2, 3] 900"]
  by (simp add: example_rec_def example_plan_def)

subsection \<open>Budget adherence\<close>

text \<open>
  Claim C6. For every evaluated recommendation whose intent states a positive budget
  \<open>b\<close>, the score is decided by the ratio the code computes, the double quotient
  total cost estimate / \<open>b\<close>, against the doubles the literals 1.0, 1.2 and 1.5 denote:
  ratio \<open>\<le> 1.0\<close> gives 10, \<open>1.0 < ratio \<le> 1.2\<close> gives 7, \<open>1.2 < ratio \<le> 1.5\<close> gives 4, and
  ratio \<open>> 1.5\<close> gives 2 together with the over-budget message; when no positive budget
  is stated the score is 8.
\<close>

theorem budget_adherence_bands:
  "(\<forall>b. budget_usd (intent rec) = Some b \<and> 0 < b \<longrightarrow>
      (fdiv (total_cost_estimate rec) b \<le> 1
         \<longrightarrow> budget_adherence_score (snd (evaluate lib cfg stamp call tr rec)) = 10) \<and>
      (1 < fdiv (total_cost_estimate rec) b \<and> fdiv (total_cost_estimate rec) b \<le> to_double (12 / 10)
         \<longrightarrow> budget_adherence_score (snd (evaluate lib cfg stamp call tr rec)) = 7) \<and>
      (to_double (12 / 10) < fdiv (total_cost_estimate rec) b \<and> fdiv (total_cost_estimate rec) b \<le> 15 / 10
         \<longrightarrow> budget_adherence_score (snd (evaluate lib cfg stamp call tr rec)) = 4) \<and>
      (15 / 10 < fdiv (total_cost_estimate rec) b
         \<longrightarrow> budget_adherence_score (snd (evaluate lib cfg stamp call tr rec)) = 2 \<and>
             ''Budget exceeded: $'' @ fmt_0f (total_cost_estimate rec) @ '' vs $'' @ fmt_0f b
               \<in> set (error_messages (snd (evaluate lib cfg stamp call tr rec))))) \<and>
   ((\<forall>b. budget_usd (intent rec) = Some b \<longrightarrow> \<not> 0 < b)
      \<longrightarrow> budget_adherence_score (snd (evaluate lib cfg stamp call tr rec)) = 8)"
proof -
  have l: "(1::rat) < to_double (12 / 10)" "to_double (12 / 10) < 15 / 10"
    by (simp_all add: to_double_literals)
  show ?thesis
    using l by (auto simp add: evaluate_budget evaluate_messages split: option.splits)
qed

lemma ex_budget [simp]: "budget_usd (intent (example_rec ns c)) = Some 1000"
  "total_cost_estimate (example_rec ns c) = c"
  by (simp_all add: example_rec_def example_intent_def)

text \<open>
  The quotients of the examples, as the machine computes them: 1200 / 1000 and
  121.2 / 101 are both the double 1.2 (the exact quotient of the latter lies above
  it), 1210 / 1000 lies above it, and 150.12 / 100.08 is the double 1.5.
\<close>

lemma example_ratios:
  "fdiv 1000 1000 \<le> 1"
  "1 < fdiv 1100 1000 \<and> fdiv 1100 1000 \<le> to_double (12 / 10)"
  "1 < fdiv 1200 1000 \<and> fdiv 1200 1000 \<le> to_double (12 / 10)"
  "to_double (12 / 10) < fdiv 1210 1000 \<and> fdiv 1210 1000 \<le> 15 / 10"
  "15 / 10 < fdiv 1510 1000"
  "1 < fdiv (to_double (1212 / 10)) 101 \<and> fdiv (to_double (1212 / 10)) 101 \<le> to_double (12 / 10)"
  "to_double (12 / 10) < to_double (1212 / 10) / 101"
  "to_double (12 / 10) < fdiv (to_double (15012 / 100)) (to_double (10008 / 100)) \<and>
   fdiv (to_double (15012 / 100)) (to_double (10008 / 100)) \<le> 15 / 10"
  "0 < to_double (10008 / 100)"
  by code_simp+

theorem budget_adherence_bands_witness:
  "budget_adherence_score (snd (evaluate example_lib example_cfg [] failing_call empty_tracker
       (example_rec [1, 2, 3] 1000))) = 10 \<and>
   budget_adherence_score (snd (evaluate example_lib example_cfg [] failing_call empty_tracker
       (example_rec [1, 2, 3] 1100))) = 7 \<and>
   budget_adherence_score (snd (evaluate example_lib example_cfg [] failing_call empty_tracker
       (example_rec [1, 2, 3] 1200))) = 7 \<and>
   budget_adherence_score (snd (evaluate example_lib example_cfg [] failing_call empty_tracker
       (example_rec [1, 2, 3] 1210))) = 4 \<and>
   budget_adherence_score (snd (evaluate example_lib example_cfg [] failing_call empty_tracker
       (example_rec [1, 2, 3] 1510))) = 2 \<and>
   ''Budget exceeded: $1510 vs $1000''
      \<in> set (error_messages (snd (evaluate example_lib example_cfg [] failing_call empty_tracker
              (example_rec [1, 2, 3] 1510)))) \<and>
   budget_adherence_score (snd (evaluate example_lib example_cfg [] failing_call empty_tracker
       ((example_rec [1, 2, 3] (to_double (1212 / 10)))
          \<lparr>intent := example_intent\<lparr>budget_usd := Some 101\<rparr>\<rparr>))) = 7 \<and>
   budget_adherence_score (snd (evaluate example_lib example_cfg [] failing_call empty_tracker
       ((example_rec [1, 2, 3] (to_double (15012 / 100)))
          \<lparr>intent := example_intent\<lparr>budget_usd := Some (to_double (10008 / 100))\<rparr>\<rparr>))) = 4 \<and>
   budget_adherence_score (snd (evaluate example_lib example_cfg [] failing_call empty_tracker
       ((example_rec [1, 2, 3] 1510)\<lparr>intent := example_intent\<lparr>budget_usd := None\<rparr>\<rparr>))) = 8"
proof -
  have f: "fmt_0f 1510 = ''1510''" "fmt_0f 1000 = ''1000''"
    by code_simp+
  note w = budget_adherence_bands [where lib = example_lib and cfg = example_cfg and stamp = "[]"
      and call = failing_call and tr = empty_tracker]
  have 1: "budget_adherence_score (snd (evaluate example_lib example_cfg [] failing_call empty_tracker
       (example_rec [1, 2, 3] 1000))) = 10"
    using w [where rec = "example_rec [1, 2, 3] 1000"] example_ratios(1) by simp
  have 2: "budget_adherence_score (snd (evaluate example_lib example_cfg [] failing_call empty_tracker
       (example_rec [1, 2, 3] 1100))) = 7"
    using w [where rec = "example_rec [1, 2, 3] 1100"] example_ratios(2) by simp
  have 3: "budget_adherence_score (snd (evaluate example_lib example_cfg [] failing_call empty_tracker
       (example_rec [1, 2, 3] 1200))) = 7"
    using w [where rec = "example_rec [1, 2, 3] 1200"] example_ratios(3) by simp
  have 4: "budget_adherence_score (snd (evaluate example_lib example_cfg [] failing_call empty_tracker
       (example_rec [1, 2, 3] 1210))) = 4"
    using w [where rec = "example_rec [1, 2, 3] 1210"] example_ratios(4) by simp
  have 5: "budget_adherence_score (snd (evaluate example_lib example_cfg [] failing_call empty_tracker
       (example_rec [1, 2, 3] 1510))) = 2 \<and>
    ''Budget exceeded: $1510 vs $1000''
      \<in> set (error_messages (snd (evaluate example_lib example_cfg [] failing_call empty_tracker
              (example_rec [1, 2, 3] 1510))))"
    using w [where rec = "example_rec [1, 2, 3] 1510"] example_ratios(5) by (simp add: f)
  have 6: "budget_adherence_score (snd (evaluate example_lib example_cfg [] failing_call empty_tracker
       ((example_rec [1, 2, 3] (to_double (1212 / 10)))
          \<lparr>intent := example_intent\<lparr>budget_usd := Some 101\<rparr>\<rparr>))) = 7"
    using w [where rec = "(example_rec [1, 2, 3] (to_double (1212 / 10)))
          \<lparr>intent := example_intent\<lparr>budget_usd := Some 101\<rparr>\<rparr>"] example_ratios(6)
    by (simp add: example_rec_def)
  have 7: "budget_adherence_score (snd (evaluate example_lib example_cfg [] failing_call empty_tracker
       ((example_rec [1, 2, 3] (to_double (15012 / 100)))
          \<lparr>intent := example_intent\<lparr>budget_usd := Some (to_double (10008 / 100))\<rparr>\<rparr>))) = 4"
    using w [where rec = "(example_rec [1, 2, 3] (to_double (15012 / 100)))
          \<lparr>intent := example_intent\<lparr>budget_usd := Some (to_double (10008 / 100))\<rparr>\<rparr>"]
      example_ratios(8) example_ratios(9)
    by (simp add: example_rec_def)
  have 8: "budget_adherence_score (snd (evaluate example_lib example_cfg [] failing_call empty_tracker
       ((example_rec [1, 2, 3] 1510)\<lparr>intent := example_intent\<lparr>budget_usd := None\<rparr>\<rparr>))) = 8"
    using w [where rec = "(example_rec [1, 2, 3] 1510)\<lparr>intent := example_intent\<lparr>budget_usd := None\<rparr>\<rparr>"]
    by simp
  from 1 2 3 4 5 6 7 8 show ?thesis
    by blast
qed

subsection \<open>Coherence\<close>

lemma filter_day_issue_other [simp]:
  "\<not> starts_with ''Day numbering issue'' ''No daily plans generated''"
  "\<not> starts_with ''Day numbering issue'' (''Plan has '' @ s)"
  "\<not> starts_with ''Day numbering issue'' (''Budget exceeded: $'' @ s)"
  "starts_with ''Day numbering issue'' (''Day numbering issue at day '' @ s)"
  by simp_all

lemma filter_day_issue_map:
  "filter (starts_with ''Day numbering issue'')
     (map (\<lambda>(j, d). ''Day numbering issue at day '' @ str_nat (j + 1)) xs) =
   map (\<lambda>(j, d). ''Day numbering issue at day '' @ str_nat (j + 1)) xs"
  by (induction xs) auto

lemma evaluate_day_issue_messages:
  "filter (starts_with ''Day numbering issue'') (error_messages (snd (evaluate lib cfg stamp call tr rec))) =
     map (\<lambda>(j, d). ''Day numbering issue at day '' @ str_nat (j + 1))
       (filter (\<lambda>(j, d). day d \<noteq> int j + 1) (enumerate 0 (daily_plans (trip_plan rec))))"
  by (simp add: evaluate_messages coherence_loop_snd filter_day_issue_map split: option.splits)

text \<open>
  Claim C7. For every evaluated recommendation the coherence score is 10, minus 2 for
  each day whose \<open>day\<close> field differs from its 1-based position in the day sequence,
  minus 1 for each day with an empty morning, afternoon or evening text, floored at 0;
  one ``Day numbering issue'' message is recorded per misnumbered day. In particular a
  plan with day indices [1, 2, 4] and all texts populated scores 8 with exactly one
  such message.
\<close>

theorem coherence_score_formula:
  "coherence_score (snd (evaluate lib cfg stamp call tr rec)) =
     max 0 (10 - 2 * of_nat (length (filter (\<lambda>(i, d). day d \<noteq> int i + 1)
                                        (enumerate 0 (daily_plans (trip_plan rec)))))
              - of_nat (length (filter (\<lambda>d. morning d = [] \<or> afternoon d = [] \<or> evening d = [])
                                        (daily_plans (trip_plan rec))))) \<and>
   length (filter (starts_with ''Day numbering issue'')
             (error_messages (snd (evaluate lib cfg stamp call tr rec)))) =
     length (filter (\<lambda>(i, d). day d \<noteq> int i + 1) (enumerate 0 (daily_plans (trip_plan rec)))) \<and>
   (map day (daily_plans (trip_plan rec)) = [1, 2, 4] \<and>
    (\<forall>d \<in> set (daily_plans (trip_plan rec)). morning d \<noteq> [] \<and> afternoon d \<noteq> [] \<and> evening d \<noteq> [])
      \<longrightarrow> coherence_score (snd (evaluate lib cfg stamp call tr rec)) = 8 \<and>
          filter (starts_with ''Day numbering issue'')
             (error_messages (snd (evaluate lib cfg stamp call tr rec))) =
            [''Day numbering issue at day 3''])"
proof (intro conjI impI)
  show c: "coherence_score (snd (evaluate lib cfg stamp call tr rec)) =
     max 0 (10 - 2 * of_nat (length (filter (\<lambda>(i, d). day d \<noteq> int i + 1)
                                        (enumerate 0 (daily_plans (trip_plan rec)))))
              - of_nat (length (filter (\<lambda>d. morning d = [] \<or> afternoon d = [] \<or> evening d = [])
                                        (daily_plans (trip_plan rec)))))"
    by (simp add: evaluate_coherence coherence_loop_fst)
  show "length (filter (starts_with ''Day numbering issue'')
             (error_messages (snd (evaluate lib cfg stamp call tr rec)))) =
     length (filter (\<lambda>(i, d). day d \<noteq> int i + 1) (enumerate 0 (daily_plans (trip_plan rec))))"
    by (simp add: evaluate_day_issue_messages)
next
  assume a: "map day (daily_plans (trip_plan rec)) = [1, 2, 4] \<and>
    (\<forall>d \<in> set (daily_plans (trip_plan rec)). morning d \<noteq> [] \<and> afternoon d \<noteq> [] \<and> evening d \<noteq> [])"
  then obtain d1 d2 d3 where ds: "daily_plans (trip_plan rec) = [d1, d2, d3]"
    and d: "day d1 = 1" "day d2 = 2" "day d3 = 4"
    by (auto simp: map_eq_Cons_conv)
  from a ds have t: "morning d1 \<noteq> []" "afternoon d1 \<noteq> []" "evening d1 \<noteq> []"
    "morning d2 \<noteq> []" "afternoon d2 \<noteq> []" "evening d2 \<noteq> []"
    "morning d3 \<noteq> []" "afternoon d3 \<noteq> []" "evening d3 \<noteq> []"
    by simp_all
  have s3: "str_nat (Suc (Suc (Suc 0))) = ''3''" by code_simp
  show "coherence_score (snd (evaluate lib cfg stamp call tr rec)) = 8"
    by (simp add: evaluate_coherence ds d t)
  show "filter (starts_with ''Day numbering issue'')
             (error_messages (snd (evaluate lib cfg stamp call tr rec))) =
            [''Day numbering issue at day 3'']"
    by (simp add: evaluate_day_issue_messages ds d enumerate_eq_zip upt_rec s3)
qed

lemma ex_days [simp]: "daily_plans (trip_plan (example_rec ns c)) = map example_day ns"
  by (simp add: example_rec_def example_plan_def)

theorem coherence_score_formula_witness:
  "coherence_score (snd (evaluate example_lib example_cfg [] failing_call empty_tracker
       (example_rec [1, 2, 4] 900))) = 8 \<and>
   filter (starts_with ''Day numbering issue'')
     (error_messages (snd (evaluate example_lib example_cfg [] failing_call empty_tracker
        (example_rec [1, 2, 4] 900)))) = [''Day numbering issue at day 3'']"
  using coherence_score_formula [of example_lib example_cfg "[]" failing_call empty_tracker "example_rec [1, 2, 4] 900"]
  by (simp add: example_day_def)

subsection \<open>Aggregation: overall score and grade\<close>

lemma round_half_even_bounds:
  "\<bar>of_int (round_half_even x) - x\<bar> \<le> 1 / 2"
proof -
  have "of_int \<lfloor>x\<rfloor> \<le> x" "x < of_int \<lfloor>x\<rfloor> + 1" by linarith+
  then show ?thesis
    by (auto simp: round_half_even_def Let_def)
qed

lemma round_half_even_tie:
  assumes "\<bar>of_int (round_half_even x) - x\<bar> = 1 / 2"
  shows "even (round_half_even x)"
proof -
  have "of_int \<lfloor>x\<rfloor> \<le> x" "x < of_int \<lfloor>x\<rfloor> + 1" by linarith+
  with assms show ?thesis
    by (auto simp: round_half_even_def Let_def split: if_splits)
qed

text \<open>
  What \<^verbatim>\<open>round(s, 1)\<close> returns: the double nearest to \<open>k / 10\<close>, where \<open>k / 10\<close> is the
  multiple of one tenth nearest to the exact value of \<open>s\<close>, the even \<open>k\<close> at a tie.
\<close>

lemma py_round_1_nearest_tenth:
  "\<exists>k::int. py_round s 1 = to_double (of_int k / 10) \<and> \<bar>of_int k / 10 - s\<bar> \<le> 1 / 20 \<and>
            (\<bar>of_int k / 10 - s\<bar> = 1 / 20 \<longrightarrow> even k)"
proof (intro exI conjI impI)
  show "py_round s 1 = to_double (of_int (round_half_even (s * 10)) / 10)"
    by (simp add: py_round_def)
  have "\<bar>of_int (round_half_even (s * 10)) - s * 10\<bar> \<le> 1 / 2"
    by (rule round_half_even_bounds)
  then show "\<bar>of_int (round_half_even (s * 10)) / 10 - s\<bar> \<le> 1 / 20"
    by (simp add: abs_le_iff field_simps)
  assume "\<bar>of_int (round_half_even (s * 10)) / 10 - s\<bar> = 1 / 20"
  then have "\<bar>of_int (round_half_even (s * 10)) - s * 10\<bar> = 1 / 2"
    by (simp add: abs_if field_simps split: if_splits)
  then show "even (round_half_even (s * 10))"
    by (rule round_half_even_tie)
qed

lemma evaluate_overall:
  "overall_score (snd (evaluate lib cfg stamp call tr rec)) =
     calculate_overall_score (snd (evaluate lib cfg stamp call tr rec))"
  by (simp add: evaluate_def Let_def case_prod_unfold calculate_overall_score_def)

lemma evaluate_grade:
  "grade (snd (evaluate lib cfg stamp call tr rec)) =
     score_to_grade (overall_score (snd (evaluate lib cfg stamp call tr rec)))"
  by (simp add: evaluate_def Let_def case_prod_unfold)

text \<open>
  Claim C1. For every evaluated recommendation: the critical-error flag is set exactly
  when the heuristic stage found an empty day sequence; if it is set, the overall
  score is 0 and the grade is ``F'', whatever the sub-scores are. Otherwise the
  overall score is 0.30 * intent_match + 0.25 * budget_adherence + 0.20 * feasibility +
  0.15 * completeness + 0.10 * coherence, computed as the code computes it (the
  weights are the doubles of the literals, each product and each sum from left to
  right is rounded to a double) and rounded to one decimal: it is the double of a
  multiple \<open>k / 10\<close> of one tenth that lies within 0.05 of that sum, with even \<open>k\<close> at
  a tie. The grade is ``A'' from 9.0, ``B'' from 7.5, ``C'' from 6.0, ``D'' from 4.0 and
  ``F'' below.
\<close>

theorem overall_score_and_grade:
  "(has_critical_errors m \<longrightarrow>
      calculate_overall_score m = 0 \<and> score_to_grade (calculate_overall_score m) = ''F'') \<and>
   (let r = snd (evaluate lib cfg stamp call tr rec);
        s = fadd (fadd (fadd (fadd (fmul (intent_match_score r) (to_double (30 / 100)))
                                   (fmul (budget_adherence_score r) (to_double (25 / 100))))
                             (fmul (feasibility_score r) (to_double (20 / 100))))
                       (fmul (completeness_score r) (to_double (15 / 100))))
                 (fmul (coherence_score r) (to_double (10 / 100)))
    in has_critical_errors r = (daily_plans (trip_plan rec) = []) \<and>
       (has_critical_errors r \<longrightarrow> overall_score r = 0 \<and> grade r = ''F'') \<and>
       (\<not> has_critical_errors r \<longrightarrow>
          overall_score r = py_round s 1 \<and>
          (\<exists>k::int. overall_score r = to_double (of_int k / 10) \<and>
                    \<bar>of_int k / 10 - s\<bar> \<le> 1 / 20 \<and>
                    (\<bar>of_int k / 10 - s\<bar> = 1 / 20 \<longrightarrow> even k)) \<and>
          grade r =
            (if overall_score r \<ge> 9 then ''A''
             else if overall_score r \<ge> 75 / 10 then ''B''
             else if overall_score r \<ge> 6 then ''C''
             else if overall_score r \<ge> 4 then ''D''
             else ''F'')))"
proof -
  define r where "r = snd (evaluate lib cfg stamp call tr rec)"
  define s where
    "s = fadd (fadd (fadd (fadd (fmul (intent_match_score r) (to_double (30 / 100)))
                                (fmul (budget_adherence_score r) (to_double (25 / 100))))
                          (fmul (feasibility_score r) (to_double (20 / 100))))
                    (fmul (completeness_score r) (to_double (15 / 100))))
              (fmul (coherence_score r) (to_double (10 / 100)))"
  have ov: "overall_score r = calculate_overall_score r"
    unfolding r_def by (rule evaluate_overall)
  have gr: "grade r = score_to_grade (overall_score r)"
    unfolding r_def by (rule evaluate_grade)
  have 0: "has_critical_errors m \<longrightarrow>
      calculate_overall_score m = 0 \<and> score_to_grade (calculate_overall_score m) = ''F''"
    by (simp add: calculate_overall_score_def score_to_grade_def)
  have 1: "has_critical_errors r = (daily_plans (trip_plan rec) = [])"
    unfolding r_def by (rule evaluate_critical)
  have 2: "has_critical_errors r \<longrightarrow> overall_score r = 0 \<and> grade r = ''F''"
    by (simp add: gr ov calculate_overall_score_def score_to_grade_def)
  have 3: "overall_score r = py_round s 1" if "\<not> has_critical_errors r"
    using that unfolding ov s_def calculate_overall_score_def Let_def by (simp only: if_False)
  have 4: "\<exists>k::int. overall_score r = to_double (of_int k / 10) \<and>
                    \<bar>of_int k / 10 - s\<bar> \<le> 1 / 20 \<and>
                    (\<bar>of_int k / 10 - s\<bar> = 1 / 20 \<longrightarrow> even k)" if "\<not> has_critical_errors r"
    using py_round_1_nearest_tenth [of s] 3 [OF that] by simp
  have 5: "grade r =
            (if overall_score r \<ge> 9 then ''A''
             else if overall_score r \<ge> 75 / 10 then ''B''
             else if overall_score r \<ge> 6 then ''C''
             else if overall_score r \<ge> 4 then ''D''
             else ''F'')"
    by (subst gr) (simp only: score_to_grade_def)
  from 0 1 2 3 4 5 show ?thesis
    unfolding Let_def r_def [symmetric] s_def [symmetric] by blast
qed

text \<open>
  Two evaluations: an empty plan, and a three-day plan at 1100 against a budget of
  1000 whose rubric reply scores intent match 6 and leaves feasibility at its default
  7. The sub-scores 6, 7, 7, 10, 10 give the double sum 7.45 (slightly above the
  decimal), which rounds to 7.5 and grade ``B''.
\<close>

lemma llm_scores_any_metrics:
  "intent_match_score (snd (run_llm_evaluation lib mdl call rec tr m)) =
     intent_match_score (snd (run_llm_evaluation lib mdl call rec tr m'))"
  "feasibility_score (snd (run_llm_evaluation lib mdl call rec tr m)) =
     feasibility_score (snd (run_llm_evaluation lib mdl call rec tr m'))"
  by (simp_all add: run_llm_evaluation_def Let_def llm_fallback_def split: sum.splits)

lemma evaluate_rubric_scores:
  assumes "daily_plans (trip_plan rec) \<noteq> []"
  shows "intent_match_score (snd (evaluate lib cfg stamp call tr rec)) =
           intent_match_score (snd (run_llm_evaluation lib (SECONDARY_MODEL cfg) call rec tr m))"
    and "feasibility_score (snd (evaluate lib cfg stamp call tr rec)) =
           feasibility_score (snd (run_llm_evaluation lib (SECONDARY_MODEL cfg) call rec tr m))"
proof -
  have "\<exists>m1. intent_match_score (snd (evaluate lib cfg stamp call tr rec)) =
           intent_match_score (snd (run_llm_evaluation lib (SECONDARY_MODEL cfg) call rec tr m1))"
    using assms by (auto simp add: evaluate_def Let_def case_prod_unfold heur_critical)
  then show "intent_match_score (snd (evaluate lib cfg stamp call tr rec)) =
           intent_match_score (snd (run_llm_evaluation lib (SECONDARY_MODEL cfg) call rec tr m))"
    using llm_scores_any_metrics(1) by metis
  have "\<exists>m1. feasibility_score (snd (evaluate lib cfg stamp call tr rec)) =
           feasibility_score (snd (run_llm_evaluation lib (SECONDARY_MODEL cfg) call rec tr m1))"
    using assms by (auto simp add: evaluate_def Let_def case_prod_unfold heur_critical)
  then show "feasibility_score (snd (evaluate lib cfg stamp call tr rec)) =
           feasibility_score (snd (run_llm_evaluation lib (SECONDARY_MODEL cfg) call rec tr m))"
    using llm_scores_any_metrics(2) by metis
qed

lemma example_rubric_reply:
  "intent_match_score (snd (run_llm_evaluation rubric_lib (SECONDARY_MODEL example_cfg)
       (text_reply ''{intent_match_score: 6}'') (example_rec [1, 2, 3] 1100) empty_tracker
       blank_metrics)) = 6"
  "feasibility_score (snd (run_llm_evaluation rubric_lib (SECONDARY_MODEL example_cfg)
       (text_reply ''{intent_match_score: 6}'') (example_rec [1, 2, 3] 1100) empty_tracker
       blank_metrics)) = 7"
  by code_simp+

lemma example_scores:
  "intent_match_score (snd (evaluate rubric_lib example_cfg [] (text_reply ''{intent_match_score: 6}'')
       empty_tracker (example_rec [1, 2, 3] 1100))) = 6"
  "budget_adherence_score (snd (evaluate rubric_lib example_cfg [] (text_reply ''{intent_match_score: 6}'')
       empty_tracker (example_rec [1, 2, 3] 1100))) = 7"
  "feasibility_score (snd (evaluate rubric_lib example_cfg [] (text_reply ''{intent_match_score: 6}'')
       empty_tracker (example_rec [1, 2, 3] 1100))) = 7"
  "completeness_score (snd (evaluate rubric_lib example_cfg [] (text_reply ''{intent_match_score: 6}'')
       empty_tracker (example_rec [1, 2, 3] 1100))) = 10"
  "coherence_score (snd (evaluate rubric_lib example_cfg [] (text_reply ''{intent_match_score: 6}'')
       empty_tracker (example_rec [1, 2, 3] 1100))) = 10"
proof -
  have d: "daily_plans (trip_plan (example_rec [1, 2, 3] 1100)) \<noteq> []"
    by simp
  show "intent_match_score (snd (evaluate rubric_lib example_cfg [] (text_reply ''{intent_match_score: 6}'')
       empty_tracker (example_rec [1, 2, 3] 1100))) = 6"
    using evaluate_rubric_scores(1) [OF d, where m = blank_metrics and lib = rubric_lib
        and cfg = example_cfg and stamp = "[]" and call = "text_reply ''{intent_match_score: 6}''"
        and tr = empty_tracker] example_rubric_reply(1)
    by simp
  show "feasibility_score (snd (evaluate rubric_lib example_cfg [] (text_reply ''{intent_match_score: 6}'')
       empty_tracker (example_rec [1, 2, 3] 1100))) = 7"
    using evaluate_rubric_scores(2) [OF d, where m = blank_metrics and lib = rubric_lib
        and cfg = example_cfg and stamp = "[]" and call = "text_reply ''{intent_match_score: 6}''"
        and tr = empty_tracker] example_rubric_reply(2)
    by simp
  show "budget_adherence_score (snd (evaluate rubric_lib example_cfg [] (text_reply ''{intent_match_score: 6}'')
       empty_tracker (example_rec [1, 2, 3] 1100))) = 7"
    using example_ratios(2) by (simp add: evaluate_budget)
  show "completeness_score (snd (evaluate rubric_lib example_cfg [] (text_reply ''{intent_match_score: 6}'')
       empty_tracker (example_rec [1, 2, 3] 1100))) = 10"
    by (simp add: evaluate_completeness example_rec_def example_plan_def)
  show "coherence_score (snd (evaluate rubric_lib example_cfg [] (text_reply ''{intent_match_score: 6}'')
       empty_tracker (example_rec [1, 2, 3] 1100))) = 10"
    by (simp add: evaluate_coherence example_day_def)
qed

lemma example_weighted_sum:
  "fadd (fadd (fadd (fadd (fmul 6 (to_double (30 / 100))) (fmul 7 (to_double (25 / 100))))
                    (fmul 7 (to_double (20 / 100))))
              (fmul 10 (to_double (15 / 100))))
        (fmul 10 (to_double (10 / 100))) = 8387954305977549 / 1125899906842624"
  "py_round (8387954305977549 / 1125899906842624) 1 = 75 / 10"
  "(745 / 100 :: rat) < 8387954305977549 / 1125899906842624"
  by code_simp+

theorem overall_score_and_grade_witness:
  "overall_score (snd (evaluate example_lib example_cfg [] failing_call empty_tracker (example_rec [] 1000))) = 0 \<and>
   grade (snd (evaluate example_lib example_cfg [] failing_call empty_tracker (example_rec [] 1000))) = ''F'' \<and>
   overall_score (snd (evaluate rubric_lib example_cfg [] (text_reply ''{intent_match_score: 6}'')
       empty_tracker (example_rec [1, 2, 3] 1100))) = 75 / 10 \<and>
   grade (snd (evaluate rubric_lib example_cfg [] (text_reply ''{intent_match_score: 6}'')
       empty_tracker (example_rec [1, 2, 3] 1100))) = ''B''"
proof -
  let ?c = "snd (evaluate example_lib example_cfg [] failing_call empty_tracker (example_rec [] 1000))"
  let ?g = "snd (evaluate rubric_lib example_cfg [] (text_reply ''{intent_match_score: 6}'')
       empty_tracker (example_rec [1, 2, 3] 1100))"
  note crit = overall_score_and_grade [where rec = "example_rec [] 1000" and lib = example_lib
      and cfg = example_cfg and stamp = "[]" and call = failing_call and tr = empty_tracker and m = ?c,
      unfolded Let_def]
  note good = overall_score_and_grade [where rec = "example_rec [1, 2, 3] 1100" and lib = rubric_lib
      and cfg = example_cfg and stamp = "[]" and call = "text_reply ''{intent_match_score: 6}''"
      and tr = empty_tracker and m = ?c, unfolded Let_def]
  have c: "has_critical_errors ?c"
    using crit by simp
  have 1: "overall_score ?c = 0 \<and> grade ?c = ''F''"
    using crit c by blast
  have n: "\<not> has_critical_errors ?g"
    using good by simp
  have "overall_score ?g =
          py_round (fadd (fadd (fadd (fadd (fmul (intent_match_score ?g) (to_double (30 / 100)))
                                           (fmul (budget_adherence_score ?g) (to_double (25 / 100))))
                                     (fmul (feasibility_score ?g) (to_double (20 / 100))))
                               (fmul (completeness_score ?g) (to_double (15 / 100))))
                         (fmul (coherence_score ?g) (to_double (10 / 100)))) 1"
    using good n by blast
  then have o: "overall_score ?g = 75 / 10"
    by (simp only: example_scores example_weighted_sum)
  have "grade ?g = (if overall_score ?g \<ge> 9 then ''A''
             else if overall_score ?g \<ge> 75 / 10 then ''B''
             else if overall_score ?g \<ge> 6 then ''C''
             else if overall_score ?g \<ge> 4 then ''D''
             else ''F'')"
    using good n by blast
  then have "grade ?g = ''B''"
    by (simp add: o)
  with 1 o show ?thesis by simp
qed

subsection \<open>Intent Extractor: soft failure\<close>

lemma extract_fallback_snd:
  "snd (extract_fallback cfg call user_query tr e) =
     default_TravelIntent\<lparr>original_query := user_query, TravelIntent.confidence_score := 1 / 10\<rparr>"
  by (simp add: extract_fallback_def)

text \<open>
  Claim C3. For every query and optional context, if the text-service call, the JSON
  parse, or the construction of the structured record fails, the extractor returns
  the TravelIntent whose \<open>original_query\<close> is the input query, whose
  \<open>confidence_score\<close> is 0.1 and whose other fields hold their defaults. The
  operation has no error result: whatever happens inside the \<^verbatim>\<open>try\<close>, it returns
  that record or a record the validating constructor accepted.
\<close>

theorem extract_fails_soft:
  "(reply call = Inl e \<or>
    (\<exists>response response_text cleaned.
        reply call = Inr response \<and> py_index (content response) 0 = Inr response_text \<and>
        clean_json response_text = Inr cleaned \<and>
        (json_loads lib cleaned = Inl e \<or>
         (\<exists>loaded intent_data.
            json_loads lib cleaned = Inr loaded \<and>
            set_item lib loaded ''original_query'' user_query = Inr intent_data \<and>
            make_intent lib intent_data = Inl e)))
    \<longrightarrow> snd (extract_intent lib cfg call tr user_query ctx) =
          \<lparr>TravelIntent.destination = None, start_date = None, end_date = None,
           TravelIntent.duration_days = None, num_travelers = 1, traveler_type = None,
           budget_usd = None, budget_flexibility = ''moderate'', interests = [],
           accommodation_type = None, pace = Some ''moderate'', flight_class = ''economy'',
           direct_flights_only = False, must_include = [], must_avoid = [],
           original_query = user_query, TravelIntent.confidence_score = 1 / 10\<rparr>) \<and>
   (snd (extract_intent lib cfg call tr user_query ctx) =
      default_TravelIntent\<lparr>original_query := user_query, TravelIntent.confidence_score := 1 / 10\<rparr> \<or>
    (\<exists>intent_data. make_intent lib intent_data = Inr (snd (extract_intent lib cfg call tr user_query ctx))))"
proof (intro conjI impI)
  assume "reply call = Inl e \<or>
    (\<exists>response response_text cleaned.
        reply call = Inr response \<and> py_index (content response) 0 = Inr response_text \<and>
        clean_json response_text = Inr cleaned \<and>
        (json_loads lib cleaned = Inl e \<or>
         (\<exists>loaded intent_data.
            json_loads lib cleaned = Inr loaded \<and>
            set_item lib loaded ''original_query'' user_query = Inr intent_data \<and>
            make_intent lib intent_data = Inl e)))"
  then have "snd (extract_intent lib cfg call tr user_query ctx) =
     default_TravelIntent\<lparr>original_query := user_query, TravelIntent.confidence_score := 1 / 10\<rparr>"
    by (auto simp add: extract_intent_def Let_def extract_fallback_snd)
  then show "snd (extract_intent lib cfg call tr user_query ctx) =
          \<lparr>TravelIntent.destination = None, start_date = None, end_date = None,
           TravelIntent.duration_days = None, num_travelers = 1, traveler_type = None,
           budget_usd = None, budget_flexibility = ''moderate'', interests = [],
           accommodation_type = None, pace = Some ''moderate'', flight_class = ''economy'',
           direct_flights_only = False, must_include = [], must_avoid = [],
           original_query = user_query, TravelIntent.confidence_score = 1 / 10\<rparr>"
    by (simp add: default_TravelIntent_def)
next
  show "snd (extract_intent lib cfg call tr user_query ctx) =
      default_TravelIntent\<lparr>original_query := user_query, TravelIntent.confidence_score := 1 / 10\<rparr> \<or>
    (\<exists>intent_data. make_intent lib intent_data = Inr (snd (extract_intent lib cfg call tr user_query ctx)))"
    by (auto simp add: extract_intent_def Let_def extract_fallback_snd split: sum.splits)
qed

lemma example_clean:
  "clean_json ''```json```'' = Inr []"
  "clean_json ''{destination: Paris}'' = Inr ''{destination: Paris}''"
  by code_simp+

theorem extract_fails_soft_witness:
  "snd (extract_intent example_lib example_cfg failing_call empty_tracker ''beach trip'' None) =
     \<lparr>TravelIntent.destination = None, start_date = None, end_date = None,
      TravelIntent.duration_days = None, num_travelers = 1, traveler_type = None,
      budget_usd = None, budget_flexibility = ''moderate'', interests = [],
      accommodation_type = None, pace = Some ''moderate'', flight_class = ''economy'',
      direct_flights_only = False, must_include = [], must_avoid = [],
      original_query = ''beach trip'', TravelIntent.confidence_score = 1 / 10\<rparr> \<and>
   snd (extract_intent example_lib example_cfg (text_reply ''```json```'') empty_tracker ''beach trip'' None) =
     \<lparr>TravelIntent.destination = None, start_date = None, end_date = None,
      TravelIntent.duration_days = None, num_travelers = 1, traveler_type = None,
      budget_usd = None, budget_flexibility = ''moderate'', interests = [],
      accommodation_type = None, pace = Some ''moderate'', flight_class = ''economy'',
      direct_flights_only = False, must_include = [], must_avoid = [],
      original_query = ''beach trip'', TravelIntent.confidence_score = 1 / 10\<rparr> \<and>
   snd (extract_intent example_lib example_cfg (text_reply ''{destination: Paris}'') empty_tracker ''beach trip'' None) =
     \<lparr>TravelIntent.destination = None, start_date = None, end_date = None,
      TravelIntent.duration_days = None, num_travelers = 1, traveler_type = None,
      budget_usd = None, budget_flexibility = ''moderate'', interests = [],
      accommodation_type = None, pace = Some ''moderate'', flight_class = ''economy'',
      direct_flights_only = False, must_include = [], must_avoid = [],
      original_query = ''beach trip'', TravelIntent.confidence_score = 1 / 10\<rparr>"
proof -
  have 1: "reply failing_call = Inl (PyError ''APIConnectionError'' ''Connection error.'')"
    by (simp add: failing_call_def)
  have 2: "\<exists>response response_text cleaned.
        reply (text_reply ''```json```'') = Inr response \<and>
        py_index (content response) 0 = Inr response_text \<and>
        clean_json response_text = Inr cleaned \<and>
        json_loads example_lib cleaned = Inl (PyError ''JSONDecodeError'' ''Expecting value'')"
    by (simp add: text_reply_def py_index_def example_clean example_lib_def)
  have 3: "\<exists>response response_text cleaned.
        reply (text_reply ''{destination: Paris}'') = Inr response \<and>
        py_index (content response) 0 = Inr response_text \<and>
        clean_json response_text = Inr cleaned \<and>
        (\<exists>loaded intent_data.
            json_loads example_lib cleaned = Inr loaded \<and>
            set_item example_lib loaded ''original_query'' ''beach trip'' = Inr intent_data \<and>
            make_intent example_lib intent_data =
              Inl (PyError ''ValidationError'' ''validation error for TravelIntent''))"
    by (simp add: text_reply_def py_index_def example_clean example_lib_def)
  from 1 2 3 show ?thesis
    using extract_fails_soft [where call = failing_call and lib = example_lib and cfg = example_cfg
        and tr = empty_tracker and user_query = "''beach trip''" and ctx = None
        and e = "PyError ''APIConnectionError'' ''Connection error.''"]
      extract_fails_soft [where call = "text_reply ''```json```''" and lib = example_lib
        and cfg = example_cfg and tr = empty_tracker and user_query = "''beach trip''" and ctx = None
        and e = "PyError ''JSONDecodeError'' ''Expecting value''"]
      extract_fails_soft [where call = "text_reply ''{destination: Paris}''" and lib = example_lib
        and cfg = example_cfg and tr = empty_tracker and user_query = "''beach trip''" and ctx = None
        and e = "PyError ''ValidationError'' ''validation error for TravelIntent''"]
    by blast
qed

subsection \<open>Plan Generator: hard failure\<close>

lemma plan_failed_fields:
  "snd (plan_failed cfg call tr e) = Inl e"
  "requests (fst (plan_failed cfg call tr e)) =
     requests tr @
       [\<lparr>timestamp = finished call, operation = ''trip_planning'', model = PRIMARY_MODEL cfg,
         input_tokens = 0, output_tokens = 0,
         latency_ms = (case start_time tr of
                         None \<Rightarrow> 0
                       | Some t0 \<Rightarrow> if t0 \<noteq> 0 then fmul (fsub (finished call) t0) 1000 else 0),
         cost_usd = 0, success = False, error = Some (str_of_error e)\<rparr>]"
  by (simp_all add: plan_failed_def end_request_def Let_def fadd_def fmul_def fdiv_def)

text \<open>
  Claim C4. For every intent and optional context, if the text-service call or the JSON
  parse inside \<^verbatim>\<open>plan_trip\<close> fails with exception \<open>e\<close>, exactly one entry is
  appended to the Metrics Recorder, tagged ``trip_planning'', with zero input tokens,
  zero output tokens and \<open>success = False\<close>, and the same \<open>e\<close> reaches the caller: no
  TripPlan is returned.
\<close>

theorem plan_trip_fails_hard:
  "(reply call = Inl e \<or>
    (\<exists>response response_text cleaned.
        reply call = Inr response \<and> py_index (content response) 0 = Inr response_text \<and>
        clean_json response_text = Inr cleaned \<and> json_loads lib cleaned = Inl e))
   \<longrightarrow> snd (plan_trip lib cfg call tr intent' ctx) = Inl e \<and>
       (\<exists>entry. requests (fst (plan_trip lib cfg call tr intent' ctx)) = requests tr @ [entry] \<and>
                operation entry = ''trip_planning'' \<and> input_tokens entry = 0 \<and>
                output_tokens entry = 0 \<and> \<not> success entry \<and>
                error entry = Some (str_of_error e))"
  by (auto simp add: plan_trip_def Let_def plan_failed_fields start_request_def)

theorem plan_trip_fails_hard_witness:
  "snd (plan_trip example_lib example_cfg failing_call empty_tracker example_intent None) =
     Inl (PyError ''APIConnectionError'' ''Connection error.'') \<and>
   (\<exists>entry. requests (fst (plan_trip example_lib example_cfg failing_call empty_tracker example_intent None)) =
              requests empty_tracker @ [entry] \<and>
            operation entry = ''trip_planning'' \<and> input_tokens entry = 0 \<and>
            output_tokens entry = 0 \<and> \<not> success entry \<and>
            error entry = Some (str_of_error (PyError ''APIConnectionError'' ''Connection error.''))) \<and>
   snd (plan_trip example_lib example_cfg (text_reply ''```json```'') empty_tracker example_intent None) =
     Inl (PyError ''JSONDecodeError'' ''Expecting value'')"
proof -
  have 1: "reply failing_call = Inl (PyError ''APIConnectionError'' ''Connection error.'')"
    by (simp add: failing_call_def)
  have 2: "\<exists>response response_text cleaned.
        reply (text_reply ''```json```'') = Inr response \<and>
        py_index (content response) 0 = Inr response_text \<and>
        clean_json response_text = Inr cleaned \<and>
        json_loads example_lib cleaned = Inl (PyError ''JSONDecodeError'' ''Expecting value'')"
    by (simp add: text_reply_def py_index_def example_clean example_lib_def)
  from 1 2 show ?thesis
    using plan_trip_fails_hard [where call = failing_call and lib = example_lib and cfg = example_cfg
        and tr = empty_tracker and intent' = example_intent and ctx = None
        and e = "PyError ''APIConnectionError'' ''Connection error.''"]
      plan_trip_fails_hard [where call = "text_reply ''```json```''" and lib = example_lib
        and cfg = example_cfg and tr = empty_tracker and intent' = example_intent and ctx = None
        and e = "PyError ''JSONDecodeError'' ''Expecting value''"]
    by blast
qed

subsection \<open>Orchestrator: total cost\<close>

lemma plan_score_missing_duration:
  "xs \<noteq> [] \<Longrightarrow>
   (int (length xs) < (case d of None \<Rightarrow> 1 | Some d \<Rightarrow> if d \<noteq> 0 then d else 1)) =
   (int (length xs) < (case d of None \<Rightarrow> 1 | Some d \<Rightarrow> d))"
  by (cases xs) (auto split: option.splits)

lemma search_outbound_None:
  "(search_outbound io use_real_apis include_flights ctx i = None) =
     (\<not> (include_flights \<and> truthy_str (TravelIntent.destination i) \<and> truthy_str (start_date i)))"
  by (auto simp add: search_outbound_def truthy_str_def Let_def split: option.splits)

lemma process_query_Inr:
  assumes "process_query lib cfg io use_real_apis tr user_query include_flights ctx = (tr', Inr rec)"
  shows "intent rec = snd (extract_intent lib cfg (intent_call io) tr user_query ctx)"
    and "outbound_flights rec = search_outbound io use_real_apis include_flights ctx (intent rec)"
    and "total_cost_estimate rec =
           (case outbound_flights rec of
              None \<Rightarrow> total_estimated_cost (trip_plan rec)
            | Some fl \<Rightarrow>
                if offers fl \<noteq> [] then
                  total_estimated_cost (trip_plan rec) +
                  (if truthy_str (end_date (intent rec))
                   then min_list (map price_usd (offers fl)) * of_int (num_travelers (intent rec)) * 2
                   else min_list (map price_usd (offers fl)) * of_int (num_travelers (intent rec)))
                else total_estimated_cost (trip_plan rec))"
    and "TripRecommendation.confidence_score rec =
           calculate_confidence (intent rec) (trip_plan rec) (outbound_flights rec)"
    and "return_flights rec = None"
  using assms
  by (auto simp add: process_query_def Let_def case_prod_unfold split: sum.splits option.splits prod.splits)

text \<open>
  \<^verbatim>\<open>process_query\<close> returns a recommendation exactly when \<^verbatim>\<open>plan_trip\<close> returns
  a plan; otherwise the exception of \<^verbatim>\<open>plan_trip\<close> passes through.
\<close>

lemma process_query_returns:
  "snd (process_query lib cfg io use_real_apis tr user_query include_flights ctx) =
     (case snd (plan_trip lib cfg (plan_call io)
                  (fst (extract_intent lib cfg (intent_call io) tr user_query ctx))
                  (snd (extract_intent lib cfg (intent_call io) tr user_query ctx)) ctx) of
        Inl e \<Rightarrow> Inl e
      | Inr plan \<Rightarrow>
          Inr (projr (snd (process_query lib cfg io use_real_apis tr user_query include_flights ctx))))"
  by (simp add: process_query_def Let_def case_prod_unfold split: sum.splits prod.splits)

text \<open>
  Claim C2. For every TripRecommendation that \<^verbatim>\<open>process_query\<close> assembles, the total
  cost estimate is the plan's total estimated cost plus, when a flight search was made
  and returned at least one offer, the minimum offer price times the intent's traveler
  count, times 2 when the intent has an end date (a non-empty \<open>end_date\<close>) and times 1
  otherwise; when no search was made or it returned no offers the total is the plan's
  cost alone. No search is made exactly when flights were not requested or the intent
  lacks a destination or a start date.
\<close>

theorem total_cost_estimate_formula:
  "process_query lib cfg io use_real_apis tr user_query include_flights ctx = (tr', Inr rec) \<longrightarrow>
     total_cost_estimate rec =
       total_estimated_cost (trip_plan rec) +
       (case outbound_flights rec of
          None \<Rightarrow> 0
        | Some fl \<Rightarrow>
            if offers fl = [] then 0
            else Min (price_usd ` set (offers fl)) * of_int (num_travelers (intent rec)) *
                 (if truthy_str (end_date (intent rec)) then 2 else 1)) \<and>
     (outbound_flights rec = None \<longleftrightarrow>
        \<not> (include_flights \<and> truthy_str (TravelIntent.destination (intent rec)) \<and>
           truthy_str (start_date (intent rec))))"
proof
  assume a: "process_query lib cfg io use_real_apis tr user_query include_flights ctx = (tr', Inr rec)"
  have m: "min_list (map price_usd xs) = Min (price_usd ` set xs)" if "xs \<noteq> []" for xs :: "FlightOffer list"
    using that min_list_Min [of "map price_usd xs"] by simp
  have "total_cost_estimate rec =
       total_estimated_cost (trip_plan rec) +
       (case outbound_flights rec of
          None \<Rightarrow> 0
        | Some fl \<Rightarrow>
            if offers fl = [] then 0
            else Min (price_usd ` set (offers fl)) * of_int (num_travelers (intent rec)) *
                 (if truthy_str (end_date (intent rec)) then 2 else 1))"
    by (subst process_query_Inr(3) [OF a]) (simp add: m split: option.splits)
  moreover have "outbound_flights rec = None \<longleftrightarrow>
        \<not> (include_flights \<and> truthy_str (TravelIntent.destination (intent rec)) \<and>
           truthy_str (start_date (intent rec)))"
    by (subst process_query_Inr(2) [OF a]) (rule search_outbound_None)
  ultimately show "total_cost_estimate rec =
       total_estimated_cost (trip_plan rec) +
       (case outbound_flights rec of
          None \<Rightarrow> 0
        | Some fl \<Rightarrow>
            if offers fl = [] then 0
            else Min (price_usd ` set (offers fl)) * of_int (num_travelers (intent rec)) *
                 (if truthy_str (end_date (intent rec)) then 2 else 1)) \<and>
     (outbound_flights rec = None \<longleftrightarrow>
        \<not> (include_flights \<and> truthy_str (TravelIntent.destination (intent rec)) \<and>
           truthy_str (start_date (intent rec))))"
    by (rule conjI)
qed

lemma example_run_mock:
  "\<not> isl (snd (process_query example_lib example_cfg
              (example_io ''{destination: Thailand, start_date: 2026-03-15}'') False empty_tracker
              ''Thailand in March'' True None))"
  "total_cost_estimate (projr (snd (process_query example_lib example_cfg
              (example_io ''{destination: Thailand, start_date: 2026-03-15}'') False empty_tracker
              ''Thailand in March'' True None))) = 1670"
  "TripRecommendation.confidence_score (projr (snd (process_query example_lib example_cfg
              (example_io ''{destination: Thailand, start_date: 2026-03-15}'') False empty_tracker
              ''Thailand in March'' True None))) = 29 / 30"
  by code_simp+

theorem total_cost_estimate_formula_witness:
  "total_cost_estimate (projr (snd (process_query example_lib example_cfg
       (example_io ''{destination: Thailand, start_date: 2026-03-15}'') False empty_tracker
       ''Thailand in March'' True None))) =
     total_estimated_cost (trip_plan (projr (snd (process_query example_lib example_cfg
       (example_io ''{destination: Thailand, start_date: 2026-03-15}'') False empty_tracker
       ''Thailand in March'' True None)))) + 385 * 1 * 2"
proof -
  let ?r = "process_query example_lib example_cfg
       (example_io ''{destination: Thailand, start_date: 2026-03-15}'') False empty_tracker
       ''Thailand in March'' True None"
  have r: "?r = (fst ?r, Inr (projr (snd ?r)))"
    using example_run_mock(1) by (metis prod.collapse sum.collapse(2))
  have o: "outbound_flights (projr (snd ?r)) = Some (get_mock_flights ''JFK'' ''BKK'' ''2026-03-15'')"
    by code_simp
  have e: "end_date (intent (projr (snd ?r))) = Some ''2026-03-18''"
    "num_travelers (intent (projr (snd ?r))) = 1"
    by code_simp+
  show ?thesis
    using total_cost_estimate_formula [where lib = example_lib and cfg = example_cfg
        and io = "example_io ''{destination: Thailand, start_date: 2026-03-15}''"
        and use_real_apis = False and tr = empty_tracker and user_query = "''Thailand in March''"
        and include_flights = True and ctx = None and tr' = "fst ?r" and rec = "projr (snd ?r)"] r
    by (simp add: o e get_mock_flights_def truthy_str_def)
qed

subsection \<open>Orchestrator: confidence\<close>

lemma calculate_confidence_cases:
  "calculate_confidence i p fl =
     (let plan_score =
            (if daily_plans p = [] then 0
             else if int (length (daily_plans p)) <
                       (case TravelIntent.duration_days i of None \<Rightarrow> 1 | Some d \<Rightarrow> d)
                  then 7 / 10
             else 1)
      in case fl of
           None \<Rightarrow> (TravelIntent.confidence_score i + plan_score) / 2
         | Some f \<Rightarrow> (TravelIntent.confidence_score i + plan_score +
                       (if search_success f \<and> offers f \<noteq> [] then 1 else 1 / 2)) / 3)"
  by (cases "daily_plans p = []")
     (simp_all add: calculate_confidence_def Let_def plan_score_missing_duration split: option.splits)

text \<open>
  Claim C8, as amended. The overall confidence of every assembled recommendation is
  the arithmetic mean of the intent's confidence score, the plan-completeness score
  (0 for an empty day sequence, 0.7 for a non-empty one shorter than the requested
  duration, a missing duration counting as 1, and 1 otherwise) and, if a flight search
  was made, a flight score of 1 if the search succeeded with at least one offer and
  0.5 otherwise. A search is made exactly when flights were requested and the intent
  has both a destination and a start date; a request for flights alone adds no third
  score.
\<close>

theorem confidence_is_mean:
  "process_query lib cfg io use_real_apis tr user_query include_flights ctx = (tr', Inr rec) \<longrightarrow>
     (outbound_flights rec \<noteq> None \<longleftrightarrow>
        include_flights \<and> truthy_str (TravelIntent.destination (intent rec)) \<and>
        truthy_str (start_date (intent rec))) \<and>
     TripRecommendation.confidence_score rec =
       (let plan_score =
              (if daily_plans (trip_plan rec) = [] then 0
               else if int (length (daily_plans (trip_plan rec))) <
                         (case TravelIntent.duration_days (intent rec) of None \<Rightarrow> 1 | Some d \<Rightarrow> d)
                    then 7 / 10
               else 1)
        in case outbound_flights rec of
             None \<Rightarrow> (TravelIntent.confidence_score (intent rec) + plan_score) / 2
           | Some fl \<Rightarrow>
               (TravelIntent.confidence_score (intent rec) + plan_score +
                (if search_success fl \<and> offers fl \<noteq> [] then 1 else 1 / 2)) / 3)"
proof
  assume a: "process_query lib cfg io use_real_apis tr user_query include_flights ctx = (tr', Inr rec)"
  have 1: "outbound_flights rec \<noteq> None \<longleftrightarrow>
        include_flights \<and> truthy_str (TravelIntent.destination (intent rec)) \<and>
        truthy_str (start_date (intent rec))"
    using search_outbound_None [of io use_real_apis include_flights ctx "intent rec"]
    by (auto simp add: process_query_Inr(2) [OF a, symmetric])
  have 2: "TripRecommendation.confidence_score rec =
       (let plan_score =
              (if daily_plans (trip_plan rec) = [] then 0
               else if int (length (daily_plans (trip_plan rec))) <
                         (case TravelIntent.duration_days (intent rec) of None \<Rightarrow> 1 | Some d \<Rightarrow> d)
                    then 7 / 10
               else 1)
        in case outbound_flights rec of
             None \<Rightarrow> (TravelIntent.confidence_score (intent rec) + plan_score) / 2
           | Some fl \<Rightarrow>
               (TravelIntent.confidence_score (intent rec) + plan_score +
                (if search_success fl \<and> offers fl \<noteq> [] then 1 else 1 / 2)) / 3)"
    by (simp only: process_query_Inr(4) [OF a] calculate_confidence_cases)
  from 1 2 show "(outbound_flights rec \<noteq> None \<longleftrightarrow>
        include_flights \<and> truthy_str (TravelIntent.destination (intent rec)) \<and>
        truthy_str (start_date (intent rec))) \<and>
     TripRecommendation.confidence_score rec =
       (let plan_score =
              (if daily_plans (trip_plan rec) = [] then 0
               else if int (length (daily_plans (trip_plan rec))) <
                         (case TravelIntent.duration_days (intent rec) of None \<Rightarrow> 1 | Some d \<Rightarrow> d)
                    then 7 / 10
               else 1)
        in case outbound_flights rec of
             None \<Rightarrow> (TravelIntent.confidence_score (intent rec) + plan_score) / 2
           | Some fl \<Rightarrow>
               (TravelIntent.confidence_score (intent rec) + plan_score +
                (if search_success fl \<and> offers fl \<noteq> [] then 1 else 1 / 2)) / 3)"
    by (rule conjI)
qed

lemma example_run_no_dates:
  "\<not> isl (snd (process_query example_lib example_cfg
              (example_io ''{destination: Thailand}'') False empty_tracker ''Thailand'' True None))"
  "outbound_flights (projr (snd (process_query example_lib example_cfg
              (example_io ''{destination: Thailand}'') False empty_tracker ''Thailand'' True None))) = None"
  "TripRecommendation.confidence_score (projr (snd (process_query example_lib example_cfg
              (example_io ''{destination: Thailand}'') False empty_tracker ''Thailand'' True None))) = 19 / 20"
  "spec_confidence True
     (intent (projr (snd (process_query example_lib example_cfg
              (example_io ''{destination: Thailand}'') False empty_tracker ''Thailand'' True None))))
     (trip_plan (projr (snd (process_query example_lib example_cfg
              (example_io ''{destination: Thailand}'') False empty_tracker ''Thailand'' True None))))
     (outbound_flights (projr (snd (process_query example_lib example_cfg
              (example_io ''{destination: Thailand}'') False empty_tracker ''Thailand'' True None)))) = 4 / 5"
  by code_simp+

text \<open>
  Claim C8 as stated fails: with flights requested and an intent without a start date
  no search is made, and the confidence is the mean of two scores, 0.95, not the mean
  0.8 of three that the stated rule gives.
\<close>

theorem confidence_flights_requested_counterexample:
  "\<not> isl (snd (process_query example_lib example_cfg
              (example_io ''{destination: Thailand}'') False empty_tracker ''Thailand'' True None)) \<and>
   TripRecommendation.confidence_score (projr (snd (process_query example_lib example_cfg
              (example_io ''{destination: Thailand}'') False empty_tracker ''Thailand'' True None))) \<noteq>
   spec_confidence True
     (intent (projr (snd (process_query example_lib example_cfg
              (example_io ''{destination: Thailand}'') False empty_tracker ''Thailand'' True None))))
     (trip_plan (projr (snd (process_query example_lib example_cfg
              (example_io ''{destination: Thailand}'') False empty_tracker ''Thailand'' True None))))
     (outbound_flights (projr (snd (process_query example_lib example_cfg
              (example_io ''{destination: Thailand}'') False empty_tracker ''Thailand'' True None))))"
proof -
  have "(19 / 20 :: rat) \<noteq> 4 / 5"
    by simp
  with example_run_no_dates(1) show ?thesis
    by (simp only: example_run_no_dates(3,4)) simp
qed

theorem confidence_is_mean_witness:
  "TripRecommendation.confidence_score (projr (snd (process_query example_lib example_cfg
       (example_io ''{destination: Thailand, start_date: 2026-03-15}'') False empty_tracker
       ''Thailand in March'' True None))) = (9 / 10 + 1 + 1) / 3 \<and>
   TripRecommendation.confidence_score (projr (snd (process_query example_lib example_cfg
       (example_io ''{destination: Thailand}'') False empty_tracker ''Thailand'' True None))) =
     (9 / 10 + 1) / 2"
proof -
  let ?r = "process_query example_lib example_cfg
       (example_io ''{destination: Thailand, start_date: 2026-03-15}'') False empty_tracker
       ''Thailand in March'' True None"
  let ?s = "process_query example_lib example_cfg
       (example_io ''{destination: Thailand}'') False empty_tracker ''Thailand'' True None"
  have r: "?r = (fst ?r, Inr (projr (snd ?r)))"
    using example_run_mock(1) by (metis prod.collapse sum.collapse(2))
  have s: "?s = (fst ?s, Inr (projr (snd ?s)))"
    using example_run_no_dates(1) by (metis prod.collapse sum.collapse(2))
  have o: "outbound_flights (projr (snd ?r)) = Some (get_mock_flights ''JFK'' ''BKK'' ''2026-03-15'')"
    by code_simp
  have i: "intent (projr (snd ?r)) =
             example_intent\<lparr>start_date := Some ''2026-03-15'', end_date := Some ''2026-03-18'',
                            original_query := ''Thailand in March''\<rparr>"
    "trip_plan (projr (snd ?r)) = example_plan [1, 2, 3]"
    "intent (projr (snd ?s)) = example_intent\<lparr>original_query := ''Thailand''\<rparr>"
    "trip_plan (projr (snd ?s)) = example_plan [1, 2, 3]"
    by code_simp+
  have 1: "TripRecommendation.confidence_score (projr (snd ?r)) = (9 / 10 + 1 + 1) / 3"
    using confidence_is_mean [where lib = example_lib and cfg = example_cfg
        and io = "example_io ''{destination: Thailand, start_date: 2026-03-15}''"
        and use_real_apis = False and tr = empty_tracker and user_query = "''Thailand in March''"
        and include_flights = True and ctx = None and tr' = "fst ?r" and rec = "projr (snd ?r)"] r
    by (simp add: o i get_mock_flights_def example_intent_def example_plan_def)
  have 2: "TripRecommendation.confidence_score (projr (snd ?s)) = (9 / 10 + 1) / 2"
    using confidence_is_mean [where lib = example_lib and cfg = example_cfg
        and io = "example_io ''{destination: Thailand}''"
        and use_real_apis = False and tr = empty_tracker and user_query = "''Thailand''"
        and include_flights = True and ctx = None and tr' = "fst ?s" and rec = "projr (snd ?s)"] s
    by (simp add: example_run_no_dates(2) i example_intent_def example_plan_def)
  from 1 2 show ?thesis by (rule conjI)
qed

subsection \<open>Orchestrator: airport codes\<close>

lemma starts_with_prefix: "starts_with xs ys = prefix xs ys"
  by (induction xs ys rule: starts_with.induct) simp_all

lemma contains_sublist: "contains sub s = sublist sub s"
  by (induction s) (simp_all add: starts_with_prefix sublist_Cons_right)

lemma airport_loop_find:
  "airport_loop t l = map_option snd (find (\<lambda>(key, code). contains key l) t)"
  by (induction t l rule: airport_loop.induct) simp_all

lemma airport_loop_first:
  assumes "i < length t" "contains (fst (t ! i)) l" "\<forall>j<i. \<not> contains (fst (t ! j)) l"
  shows "airport_loop t l = Some (snd (t ! i))"
proof -
  have "find (\<lambda>(key, code). contains key l) t = Some (t ! i)"
    unfolding find_Some_iff using assms by (auto simp: case_prod_unfold)
  then show ?thesis by (simp add: airport_loop_find)
qed

lemma airport_loop_none:
  assumes "\<forall>i<length t. \<not> contains (fst (t ! i)) l"
  shows "airport_loop t l = None"
proof -
  have "find (\<lambda>(key, code). contains key l) t = None"
    unfolding find_None_iff using assms by (auto simp: in_set_conv_nth case_prod_unfold)
  then show ?thesis by (simp add: airport_loop_find)
qed

text \<open>
  Claim C9, as amended. For every location string the returned airport code is that of
  the first table entry, in the table's order, whose key is contained in the
  lowercased location (case-insensitive substring containment); a location that
  contains no table key resolves to the default code JFK.
\<close>

theorem airport_code_first_match:
  "(\<forall>i<length airport_map.
      sublist (fst (airport_map ! i)) (lower location) \<and>
      (\<forall>j<i. \<not> sublist (fst (airport_map ! j)) (lower location))
      \<longrightarrow> get_airport_code location = snd (airport_map ! i)) \<and>
   ((\<forall>i<length airport_map. \<not> sublist (fst (airport_map ! i)) (lower location))
      \<longrightarrow> get_airport_code location = ''JFK'')"
proof (intro conjI allI impI)
  fix i
  assume "i < length airport_map"
    and "sublist (fst (airport_map ! i)) (lower location) \<and>
      (\<forall>j<i. \<not> sublist (fst (airport_map ! j)) (lower location))"
  then have "airport_loop airport_map (lower location) = Some (snd (airport_map ! i))"
    by (intro airport_loop_first) (simp_all add: contains_sublist)
  then show "get_airport_code location = snd (airport_map ! i)"
    by (simp add: get_airport_code_def)
next
  assume "\<forall>i<length airport_map. \<not> sublist (fst (airport_map ! i)) (lower location)"
  then have "airport_loop airport_map (lower location) = None"
    by (intro airport_loop_none) (simp add: contains_sublist)
  then show "get_airport_code location = ''JFK''"
    by (simp add: get_airport_code_def)
qed

text \<open>
  Claim C9 as stated fails: ``Tokyo to Singapore'' contains the keys \<open>tokyo\<close> and
  \<open>singapore\<close>; the longest is \<open>singapore\<close> (code SIN), but the loop returns at
  \<open>tokyo\<close>, which comes first in the table, with code NRT.
\<close>

theorem airport_code_longest_match_counterexample:
  "get_airport_code ''Tokyo to Singapore'' = ''NRT'' \<and>
   spec_longest_match ''Tokyo to Singapore'' = [''SIN''] \<and>
   get_airport_code ''Tokyo to Singapore'' \<notin> set (spec_longest_match ''Tokyo to Singapore'')"
proof -
  have 1: "get_airport_code ''Tokyo to Singapore'' = ''NRT''"
    by code_simp
  have 2: "spec_longest_match ''Tokyo to Singapore'' = [''SIN'']"
    by code_simp
  show ?thesis
    by (simp add: 1 2)
qed

lemma example_location:
  "lower ''Tokyo to Singapore'' = ''tokyo to singapore''"
  "contains ''tokyo'' ''tokyo to singapore''"
  "\<not> contains ''bangkok'' ''tokyo to singapore''"
  "\<not> contains ''thailand'' ''tokyo to singapore''"
  "\<not> contains ''new york'' ''tokyo to singapore''"
  "\<not> contains ''nyc'' ''tokyo to singapore''"
  "\<not> contains ''london'' ''tokyo to singapore''"
  "\<not> contains ''paris'' ''tokyo to singapore''"
  "\<not> contains ''a'' ''xyz''"
  by code_simp+

theorem airport_code_first_match_witness:
  "get_airport_code ''Tokyo to Singapore'' = ''NRT'' \<and> get_airport_code ''Reykjavik'' = ''JFK''"
proof -
  have l: "length airport_map = 15"
    by (simp add: airport_map_def)
  have six: "(\<forall>j<6. P j) = (P 0 \<and> P 1 \<and> P 2 \<and> P 3 \<and> P 4 \<and> P (5::nat))" for P
    by (simp add: eval_nat_numeral All_less_Suc conj_commute conj_left_commute)
  have h: "sublist (fst (airport_map ! 6)) (lower ''Tokyo to Singapore'') \<and>
      (\<forall>j<6. \<not> sublist (fst (airport_map ! j)) (lower ''Tokyo to Singapore''))"
    unfolding six contains_sublist [symmetric]
    by (simp add: airport_map_def example_location)
  have n: "\<forall>i<length airport_map. \<not> sublist (fst (airport_map ! i)) (lower ''Reykjavik'')"
  proof -
    have "\<forall>p \<in> set airport_map. \<not> contains (fst p) (lower ''Reykjavik'')"
      by code_simp
    then show ?thesis
      by (simp add: contains_sublist)
  qed
  have "get_airport_code ''Tokyo to Singapore'' = snd (airport_map ! 6)"
    using airport_code_first_match [of "''Tokyo to Singapore''"] h l by simp
  moreover have "snd (airport_map ! 6) = ''NRT''"
    by (simp add: airport_map_def)
  moreover have "get_airport_code ''Reykjavik'' = ''JFK''"
    using airport_code_first_match [of "''Reykjavik''"] n by blast
  ultimately show ?thesis by simp
qed

subsection \<open>Evaluator: batches\<close>

lemma evaluate_all_length:
  "length (snd (evaluate_all lib cfg io i tr recs)) = length recs"
  by (induction recs arbitrary: i tr) (simp_all add: case_prod_unfold Let_def)

lemma dict_set_bump_sum:
  "sum_list (map snd (dict_set gd k (Suc (dict_get gd k 0)))) = Suc (sum_list (map snd gd))"
proof (induction gd)
  case Nil
  then show ?case by (simp add: dict_get_def)
next
  case (Cons p ps)
  have "dict_get (p # ps) k 0 = (if fst p = k then snd p else dict_get ps k 0)"
    by (cases p) (auto simp add: dict_get_def)
  with Cons show ?case
    by simp
qed

lemma count_grades_sum:
  "sum_list (map snd (count_grades gd ms)) = sum_list (map snd gd) + length ms"
  by (induction ms arbitrary: gd) (simp_all add: dict_set_bump_sum)

text \<open>
  Claim C10. \<^verbatim>\<open>batch_evaluate\<close> returns an aggregate for every non-empty list of
  recommendations, with \<open>total_evaluated\<close> equal to the length of the list and the
  counts of the grade histogram summing to that length; on the empty list the mean
  divides by zero and the call raises ZeroDivisionError instead of returning an
  aggregate.
\<close>

theorem batch_evaluate_nonempty_only:
  "(recommendations \<noteq> [] \<longrightarrow>
      (\<exists>agg. snd (batch_evaluate lib cfg io tr recommendations) = Inr agg \<and>
             total_evaluated agg = length recommendations \<and>
             sum_list (map snd (grade_distribution agg)) = length recommendations)) \<and>
   snd (batch_evaluate lib cfg io tr []) = Inl ZeroDivisionError"
proof (intro conjI impI)
  assume ne: "recommendations \<noteq> []"
  moreover have "length (snd (evaluate_all lib cfg io 0 tr recommendations)) = length recommendations"
    by (rule evaluate_all_length)
  ultimately have "snd (evaluate_all lib cfg io 0 tr recommendations) \<noteq> []"
    by auto
  with ne show "\<exists>agg. snd (batch_evaluate lib cfg io tr recommendations) = Inr agg \<and>
             total_evaluated agg = length recommendations \<and>
             sum_list (map snd (grade_distribution agg)) = length recommendations"
    by (simp add: batch_evaluate_def case_prod_unfold Let_def py_div_def count_grades_sum
        evaluate_all_length)
next
  show "snd (batch_evaluate lib cfg io tr []) = Inl ZeroDivisionError"
    by (simp add: batch_evaluate_def py_div_def)
qed


theorem batch_evaluate_nonempty_only_witness:
  "\<exists>agg. snd (batch_evaluate example_lib example_cfg (\<lambda>i. ([], failing_call)) empty_tracker
              [example_rec [1, 2, 3] 1000, example_rec [] 1000]) = Inr agg \<and>
         total_evaluated agg = 2 \<and>
         sum_list (map snd (grade_distribution agg)) = 2"
  using batch_evaluate_nonempty_only [where recommendations = "[example_rec [1, 2, 3] 1000, example_rec [] 1000]"
      and lib = example_lib and cfg = example_cfg and io = "\<lambda>i. ([], failing_call)" and tr = empty_tracker]
  by (simp add: numeral_2_eq_2)

end
